theory Spec2Isabelle
  imports Complex_Main
begin

section \<open>Python strings\<close>

text \<open>
  A Python \<open>str\<close> is modelled as a \<^typ>\<open>string\<close>: a list of characters with code points
  below 256. The white space of \<open>str.strip()\<close>, \<open>str.isspace()\<close> and of \<open>\s\<close> in a regular
  expression is the set of those code points that Python classifies as white space.
\<close>

definition whitespace :: "char list" where
  "whitespace = [CHR 0x09, CHR 0x0A, CHR 0x0B, CHR 0x0C, CHR 0x0D, CHR 0x1C, CHR 0x1D,
                 CHR 0x1E, CHR 0x1F, CHR 0x20, CHR 0x85, CHR 0xA0]"

definition isspace :: "char \<Rightarrow> bool" where
  "isspace c = (c \<in> set whitespace)"

definition lstrip :: "string \<Rightarrow> string" where
  "lstrip s = dropWhile isspace s"

definition rstrip :: "string \<Rightarrow> string" where
  "rstrip s = rev (dropWhile isspace (rev s))"

definition strip :: "string \<Rightarrow> string" where
  "strip s = rstrip (lstrip s)"

text \<open>\<open>startswith s p\<close> is \<open>s.startswith(p)\<close>; \<open>contains sub s\<close> is \<open>sub in s\<close>.\<close>

fun startswith :: "string \<Rightarrow> string \<Rightarrow> bool" where
  "startswith s [] = True"
| "startswith [] (p # ps) = False"
| "startswith (c # cs) (p # ps) = (c = p \<and> startswith cs ps)"

definition endswith :: "string \<Rightarrow> string \<Rightarrow> bool" where
  "endswith s p = startswith (rev s) (rev p)"

fun contains :: "string \<Rightarrow> string \<Rightarrow> bool" where
  "contains sub [] = (sub = [])"
| "contains sub (c # cs) = (startswith (c # cs) sub \<or> contains sub cs)"

text \<open>
  \<open>s.replace(old, new)\<close>: the occurrences of \<open>old\<close> are replaced from left to right and do
  not overlap. The counter of \<open>replace_from\<close> is the number of characters of a matched
  occurrence that are still to be skipped.
\<close>

fun replace_from :: "string \<Rightarrow> string \<Rightarrow> nat \<Rightarrow> string \<Rightarrow> string" where
  "replace_from old new k [] = []"
| "replace_from old new (Suc k) (c # cs) = replace_from old new k cs"
| "replace_from old new 0 (c # cs) =
     (if startswith (c # cs) old then new @ replace_from old new (length old - 1) cs
      else c # replace_from old new 0 cs)"

definition replace :: "string \<Rightarrow> string \<Rightarrow> string \<Rightarrow> string" where
  "replace old new s =
     (if old = [] then new @ concat (map (\<lambda>c. c # new) s) else replace_from old new 0 s)"

text \<open>\<open>s.split(sep)\<close> for a separator of one character: never an empty list.\<close>

fun split_on :: "char \<Rightarrow> string \<Rightarrow> string list" where
  "split_on sep [] = [[]]"
| "split_on sep (c # cs) =
     (if c = sep then [] # split_on sep cs
      else (case split_on sep cs of
              [] \<Rightarrow> [[c]]
            | p # ps \<Rightarrow> (c # p) # ps))"

section \<open>Exceptions\<close>

text \<open>
  An exception is its class and its message. The classes are those that the handlers of
  \<open>extractor.py\<close> name; every other class is \<open>OtherException\<close>, which only the handler
  \<open>except Exception\<close> of \<open>main\<close> catches.
\<close>

datatype exc_class = ValueError | IndexError | AttributeError | OtherException

datatype py_error = Raise exc_class string

fun exc_class_of :: "py_error \<Rightarrow> exc_class" where
  "exc_class_of (Raise c m) = c"

fun exc_message :: "py_error \<Rightarrow> string" where
  "exc_message (Raise c m) = m"

section \<open>Normalizers\<close>

subsection \<open>clean\_currency\<close>

text \<open>
  \<open>float(s)\<close> on a \<open>str\<close> either returns a float or raises \<open>ValueError\<close>. The built-in is a
  parameter \<open>fl\<close> of the model: \<open>fl s = None\<close> when \<open>float(s)\<close> raises \<open>ValueError\<close>, and
  \<open>fl s = Some v\<close> when it returns \<open>v\<close>. The type \<open>'f\<close> stands for Python's floats and \<open>0\<close> for
  \<open>0.0\<close>.
\<close>

definition py_float :: "(string \<Rightarrow> 'f option) \<Rightarrow> string \<Rightarrow> py_error + 'f" where
  "py_float fl s =
     (case fl s of
        None \<Rightarrow> Inl (Raise ValueError ''could not convert string to float'')
      | Some v \<Rightarrow> Inr v)"

text \<open>The \<open>try\<close> block of \<open>clean_currency\<close>, then the function with its handler.\<close>

definition clean_currency_try :: "(string \<Rightarrow> 'f option) \<Rightarrow> string \<Rightarrow> py_error + 'f" where
  "clean_currency_try fl text = py_float fl (strip (replace '','' [] (replace ''$'' [] text)))"

definition clean_currency :: "(string \<Rightarrow> 'f option) \<Rightarrow> string option \<Rightarrow> py_error + 'f::zero" where
  "clean_currency fl text =
     (case text of
        None \<Rightarrow> Inr 0
      | Some t \<Rightarrow>
          if strip t = [] then Inr 0
          else (case clean_currency_try fl t of
                  Inr v \<Rightarrow> Inr v
                | Inl e \<Rightarrow>
                    if exc_class_of e = ValueError \<or> exc_class_of e = AttributeError
                    then Inr 0 else Inl e))"

subsection \<open>Dates\<close>

text \<open>
  The calendar date of a pandas \<open>Timestamp\<close>; \<open>NaT\<close> is the missing timestamp.
\<close>

datatype date = Date (year: int) (month: int) (day: int)

datatype timestamp = NaT | Timestamp date

definition isdigit :: "char \<Rightarrow> bool" where
  "isdigit c = (c \<in> set ''0123456789'')"

text \<open>\<open>int(s)\<close> on a string of digits, and the decimal digits of a number that \<open>%Y\<close>, \<open>%m\<close>
  and \<open>%d\<close> print.\<close>

definition digit_value :: "char \<Rightarrow> int" where
  "digit_value c = int (length (takeWhile (\<lambda>d. d \<noteq> c) ''0123456789''))"

definition int_of_digits :: "string \<Rightarrow> int" where
  "int_of_digits s = foldl (\<lambda>n c. 10 * n + digit_value c) 0 s"

definition digit_char :: "int \<Rightarrow> char" where
  "digit_char n = ''0123456789'' ! nat (n mod 10)"

definition pad2 :: "int \<Rightarrow> string" where
  "pad2 n = [digit_char (n div 10), digit_char n]"

definition pad4 :: "int \<Rightarrow> string" where
  "pad4 n = [digit_char (n div 1000), digit_char (n div 100), digit_char (n div 10), digit_char n]"

text \<open>
  \<open>pd.to_datetime(s, format='%m/%d/%Y')\<close> on a \<open>str\<close>, after the behaviour of pandas 2: the
  empty string and the strings that pandas reads as missing give \<open>NaT\<close>; any other string
  has to match the whole format, the directives being the regular expressions
  \<open>1[0-2]|0[1-9]|[1-9]\<close> for \<open>%m\<close>, \<open>3[0-1]|[1-2]\d|0[1-9]|[1-9]| [1-9]\<close> for \<open>%d\<close> and
  \<open>\d\d\d\d\<close> for \<open>%Y\<close>; the day has to exist in the month, and the date has to lie inside
  the range of a nanosecond timestamp (1677-09-22 to 2262-04-11). Every failure is a
  \<open>ValueError\<close> (\<open>OutOfBoundsDatetime\<close> is a subclass of it).
\<close>

definition nat_strings :: "string list" where
  "nat_strings = [[], ''NaT'', ''nat'', ''NAT'', ''nan'', ''NaN'', ''NAN'']"

definition month_directive :: "string \<Rightarrow> bool" where
  "month_directive s =
     (case s of
        [a] \<Rightarrow> a \<in> set ''123456789''
      | [a, b] \<Rightarrow> (a = CHR ''1'' \<and> b \<in> set ''012'') \<or> (a = CHR ''0'' \<and> b \<in> set ''123456789'')
      | _ \<Rightarrow> False)"

definition day_directive :: "string \<Rightarrow> bool" where
  "day_directive s =
     (case s of
        [a] \<Rightarrow> a \<in> set ''123456789''
      | [a, b] \<Rightarrow> (a = CHR ''3'' \<and> b \<in> set ''01'') \<or> (a \<in> set ''12'' \<and> isdigit b)
                 \<or> (a = CHR ''0'' \<and> b \<in> set ''123456789'')
                 \<or> (a = CHR 0x20 \<and> b \<in> set ''123456789'')
      | _ \<Rightarrow> False)"

definition year_directive :: "string \<Rightarrow> bool" where
  "year_directive s = (length s = 4 \<and> list_all isdigit s)"

definition leap_year :: "int \<Rightarrow> bool" where
  "leap_year y = (y mod 4 = 0 \<and> (y mod 100 \<noteq> 0 \<or> y mod 400 = 0))"

definition days_in_month :: "int \<Rightarrow> int \<Rightarrow> int" where
  "days_in_month y m =
     (if m = 2 then (if leap_year y then 29 else 28)
      else if m = 4 \<or> m = 6 \<or> m = 9 \<or> m = 11 then 30 else 31)"

definition in_ns_bounds :: "date \<Rightarrow> bool" where
  "in_ns_bounds d =
     ((1677 < year d \<or> (year d = 1677 \<and> (9 < month d \<or> (month d = 9 \<and> 22 \<le> day d))))
      \<and> (year d < 2262 \<or> (year d = 2262 \<and> (month d < 4 \<or> (month d = 4 \<and> day d \<le> 11)))))"

definition to_datetime_mdY :: "string \<Rightarrow> py_error + timestamp" where
  "to_datetime_mdY s =
     (if s \<in> set nat_strings then Inr NaT
      else (case split_on CHR ''/'' s of
              [ms, ds, ys] \<Rightarrow>
                if month_directive ms \<and> day_directive ds \<and> year_directive ys then
                  (let d = Date (int_of_digits ys) (int_of_digits ms)
                             (int_of_digits (filter isdigit ds))
                   in if days_in_month (year d) (month d) < day d
                      then Inl (Raise ValueError ''day is out of range for month'')
                      else if \<not> in_ns_bounds d
                      then Inl (Raise ValueError ''Out of bounds nanosecond timestamp'')
                      else Inr (Timestamp d))
                else Inl (Raise ValueError ''time data does not match format'')
            | _ \<Rightarrow> Inl (Raise ValueError ''time data does not match format'')))"

text \<open>\<open>t.strftime('%Y-%m-%d')\<close>; on \<open>NaT\<close> it raises \<open>ValueError\<close>.\<close>

definition format_Ymd :: "date \<Rightarrow> string" where
  "format_Ymd d = pad4 (year d) @ ''-'' @ pad2 (month d) @ ''-'' @ pad2 (day d)"

definition strftime_Ymd :: "timestamp \<Rightarrow> py_error + string" where
  "strftime_Ymd t =
     (case t of
        NaT \<Rightarrow> Inl (Raise ValueError ''NaTType does not support strftime'')
      | Timestamp d \<Rightarrow> Inr (format_Ymd d))"

subsection \<open>parse\_date\_range\<close>

text \<open>
  \<open>a, b = xs\<close> raises \<open>ValueError\<close> unless \<open>xs\<close> has exactly two elements.
\<close>

definition unpack2 :: "'a list \<Rightarrow> py_error + ('a \<times> 'a)" where
  "unpack2 xs =
     (case xs of
        [a, b] \<Rightarrow> Inr (a, b)
      | _ \<Rightarrow> Inl (Raise ValueError ''wrong number of values to unpack (expected 2)''))"

definition and_then :: "py_error + 'a \<Rightarrow> ('a \<Rightarrow> py_error + 'b) \<Rightarrow> py_error + 'b" where
  "and_then r f = (case r of Inl e \<Rightarrow> Inl e | Inr v \<Rightarrow> f v)"

definition parse_date_range_try :: "string \<Rightarrow> py_error + (string \<times> string)" where
  "parse_date_range_try date_string =
     and_then (unpack2 (map strip (split_on CHR ''-'' date_string))) (\<lambda>(start_str, end_str).
     and_then (to_datetime_mdY start_str) (\<lambda>t1.
     and_then (strftime_Ymd t1) (\<lambda>start_date.
     and_then (to_datetime_mdY end_str) (\<lambda>t2.
     and_then (strftime_Ymd t2) (\<lambda>end_date.
     Inr (start_date, end_date))))))"

definition parse_date_range :: "string \<Rightarrow> py_error + (string option \<times> string option)" where
  "parse_date_range date_string =
     (case parse_date_range_try date_string of
        Inr (start_date, end_date) \<Rightarrow> Inr (Some start_date, Some end_date)
      | Inl e \<Rightarrow>
          if exc_class_of e = ValueError \<or> exc_class_of e = IndexError
          then Inr (None, None) else Inl e)"

subsection \<open>format\_date\<close>

text \<open>
  \<open>pd.to_datetime(s, errors='coerce')\<close> guesses the format of \<open>s\<close> and gives \<open>NaT\<close> where it
  finds none. It is a parameter \<open>dt\<close> of the model.
\<close>

definition format_date :: "(string \<Rightarrow> timestamp) \<Rightarrow> string option \<Rightarrow> string option" where
  "format_date dt date_string =
     (case date_string of
        None \<Rightarrow> None
      | Some s \<Rightarrow>
          if strip s = [] then None
          else (case dt s of
                  NaT \<Rightarrow> None
                | Timestamp d \<Rightarrow> Some (format_Ymd d)))"

section \<open>The document tree\<close>

text \<open>
  The tree that BeautifulSoup builds: a node is a text node or a tag with its name, its
  attributes and its children. Comments and the strings of \<open>script\<close> and \<open>style\<close> elements,
  which \<open>get_text\<close> passes over, are not part of the tree. The \<open>BeautifulSoup\<close> object is the
  root tag.
\<close>

datatype node = NavigableString string | Tag string "(string \<times> string) list" "node list"

type_synonym soup = node

fun contents :: "node \<Rightarrow> node list" where
  "contents (NavigableString s) = []"
| "contents (Tag name attrs cs) = cs"

fun is_tag :: "string \<Rightarrow> node \<Rightarrow> bool" where
  "is_tag name (NavigableString s) = False"
| "is_tag name (Tag name' attrs cs) = (name' = name)"

fun attr_id :: "node \<Rightarrow> string option" where
  "attr_id (NavigableString s) = None"
| "attr_id (Tag name attrs cs) = map_of attrs ''id''"

text \<open>\<open>id='...'\<close> compares the attribute; \<open>id=re.compile(r'...')\<close> with a pattern of plain
  characters, and \<open>id=lambda x: x and '...' in x\<close>, look for a substring of it.\<close>

definition has_id :: "string \<Rightarrow> node \<Rightarrow> bool" where
  "has_id v n = (attr_id n = Some v)"

definition id_contains :: "string \<Rightarrow> node \<Rightarrow> bool" where
  "id_contains sub n = (case attr_id n of None \<Rightarrow> False | Some v \<Rightarrow> contains sub v)"

text \<open>The descendants of a node in document order (\<open>.descendants\<close>).\<close>

fun descendants :: "node \<Rightarrow> node list" where
  "descendants (NavigableString s) = []"
| "descendants (Tag name attrs cs) = concat (map (\<lambda>c. c # descendants c) cs)"

definition find_all :: "node \<Rightarrow> (node \<Rightarrow> bool) \<Rightarrow> node list" where
  "find_all n P = filter P (descendants n)"

definition find_first :: "node \<Rightarrow> (node \<Rightarrow> bool) \<Rightarrow> node option" where
  "find_first n P = find P (descendants n)"

text \<open>\<open>get_text()\<close> joins the strings below a node; \<open>get_text(strip=True)\<close> strips each of them
  first and leaves out those that become empty.\<close>

fun all_strings :: "node \<Rightarrow> string list" where
  "all_strings (NavigableString s) = [s]"
| "all_strings (Tag name attrs cs) = concat (map all_strings cs)"

definition get_text :: "node \<Rightarrow> string" where
  "get_text n = concat (all_strings n)"

definition get_text_strip :: "node \<Rightarrow> string" where
  "get_text_strip n = concat (filter (\<lambda>s. s \<noteq> []) (map strip (all_strings n)))"

text \<open>\<open>.string\<close>: the only string below a tag, through a chain of only children.\<close>

fun dot_string :: "node \<Rightarrow> string option" where
  "dot_string (NavigableString s) = Some s"
| "dot_string (Tag name attrs [c]) = dot_string c"
| "dot_string (Tag name attrs cs) = None"

text \<open>
  Navigation from a tag needs its place in the document. A placed node is a node with its
  next siblings (\<open>.next_siblings\<close>); \<open>walk\<close> lists the placed nodes below a list of siblings in
  document order, and \<open>with_previous\<close> gives each of them the placed nodes before it,
  nearest first (\<open>.previous_elements\<close>).
\<close>

type_synonym placed = "node \<times> node list"

fun walk :: "node list \<Rightarrow> placed list" where
  "walk [] = []"
| "walk (NavigableString s # ns) = (NavigableString s, ns) # walk ns"
| "walk (Tag name attrs cs # ns) = (Tag name attrs cs, ns) # walk cs @ walk ns"

fun with_previous :: "placed list \<Rightarrow> placed list \<Rightarrow> (placed list \<times> placed) list" where
  "with_previous prev [] = []"
| "with_previous prev (e # es) = (prev, e) # with_previous (e # prev) es"

definition elements :: "soup \<Rightarrow> (placed list \<times> placed) list" where
  "elements soup = with_previous [] (walk (contents soup))"

definition find_all_placed :: "soup \<Rightarrow> (node \<Rightarrow> bool) \<Rightarrow> (placed list \<times> placed) list" where
  "find_all_placed soup P = filter (\<lambda>(prev, (n, sibs)). P n) (elements soup)"

definition find_previous :: "placed list \<Rightarrow> (node \<Rightarrow> bool) \<Rightarrow> placed option" where
  "find_previous prev P = find (\<lambda>(n, sibs). P n) prev"

definition find_next_sibling :: "placed \<Rightarrow> string \<Rightarrow> node option" where
  "find_next_sibling e name = find (is_tag name) (snd e)"

text \<open>A tag \<open>name\<close> whose \<open>.string\<close> matches \<open>^\s*label\<close>, for a label of plain characters
  that does not begin with white space.\<close>

definition label_tag :: "string \<Rightarrow> string \<Rightarrow> node \<Rightarrow> bool" where
  "label_tag name label n =
     (is_tag name n \<and>
      (case dot_string n of None \<Rightarrow> False | Some s \<Rightarrow> startswith (lstrip s) label))"

section \<open>Field extractor\<close>

definition safe_get_text :: "soup \<Rightarrow> string \<Rightarrow> string \<Rightarrow> string" where
  "safe_get_text soup_obj tag element_id =
     (case find_first soup_obj (\<lambda>n. is_tag tag n \<and> has_id element_id n) of
        Some element \<Rightarrow> get_text_strip element
      | None \<Rightarrow> [])"

section \<open>Records\<close>

text \<open>One record type for each dictionary that the extractor builds; the fields are the
  keys of the dictionary, with a prefix for the entity.\<close>

record disclosure_report =
  rep_disclosure_id :: string
  rep_report_type :: string
  rep_period_start_date :: "string option"
  rep_period_end_date :: "string option"

record lobbyist_info =
  lob_disclosure_id :: string
  lob_first_name :: string
  lob_last_name :: string
  lob_employer_name :: string
  lob_is_incidental :: bool

record client_info =
  cli_disclosure_id :: string
  cli_client_name :: string
  cli_auth_officer_name :: string
  cli_business_interest :: string

record 'f compensation =
  comp_disclosure_id :: string
  comp_payee_name :: string
  comp_amount :: 'f

record 'f activity =
  act_disclosure_id :: string
  act_individual_lobbyist_name :: string
  act_client_name :: string
  act_house_senate :: string
  act_bill_or_agency :: string
  act_bill_title :: string
  act_agent_position :: string
  act_amount :: 'f
  act_business_association :: string

record 'f met_expense =
  met_disclosure_id :: string
  met_lobbyist_name :: string
  met_date :: "string option"
  met_event_type :: string
  met_payee_vendor :: string
  met_attendees :: string
  met_amount :: 'f

record 'f operating_expense =
  op_disclosure_id :: string
  op_date :: "string option"
  op_recipient :: string
  op_type_of_expense :: string
  op_amount :: 'f

record 'f additional_expense =
  add_disclosure_id :: string
  add_date :: "string option"
  add_lobbyist_name :: string
  add_recipient_name :: string
  add_type_of_expense :: string
  add_description :: string
  add_amount :: 'f

record 'f contribution =
  con_disclosure_id :: string
  con_date :: "string option"
  con_recipient_name :: string
  con_office_sought :: string
  con_amount :: 'f

section \<open>Table extractor\<close>

text \<open>
  The extractors call \<open>clean_currency\<close> and \<open>format_date\<close> on \<open>cols[i].get_text(strip=True)\<close>.
  \<open>amount_of\<close> is the float that \<open>clean_currency\<close> returns on a string; \<open>clean_currency\<close> returns
  on every string (lemma \<open>clean_currency_returns\<close>), so the branch of an exception is there
  for the type only.
\<close>

definition amount_of :: "(string \<Rightarrow> 'f option) \<Rightarrow> string \<Rightarrow> 'f::zero" where
  "amount_of fl s = (case clean_currency fl (Some s) of Inr v \<Rightarrow> v | Inl e \<Rightarrow> 0)"

definition cell :: "node list \<Rightarrow> nat \<Rightarrow> string" where
  "cell cols i = get_text_strip (cols ! i)"

text \<open>\<open>x or d\<close> for an optional string \<open>x\<close>: \<open>None\<close> and the empty string are false.\<close>

definition or_default :: "string option \<Rightarrow> string \<Rightarrow> string" where
  "or_default x d = (case x of None \<Rightarrow> d | Some s \<Rightarrow> if s = [] then d else s)"

subsection \<open>parse\_met\_expenses\<close>

text \<open>The body of the loop over the rows: \<open>None\<close> where the row is passed over by
  \<open>continue\<close>.\<close>

definition met_expense_row ::
  "(string \<Rightarrow> 'f option) \<Rightarrow> (string \<Rightarrow> timestamp) \<Rightarrow> string \<Rightarrow> string option \<Rightarrow> node
    \<Rightarrow> ('f::zero) met_expense option" where
  "met_expense_row fl dt disclosure_id lobbyist_name row =
     (let cols = find_all row (is_tag ''td'') in
      if contains ''Total amount'' (get_text row) \<or> length cols < 5 then None
      else
        (let has_lobbyist_col = (length cols = 6) in
         Some \<lparr> met_disclosure_id = disclosure_id,
                met_lobbyist_name =
                  (if has_lobbyist_col then cell cols 1 else or_default lobbyist_name ''N/A''),
                met_date = format_date dt (Some (cell cols 0)),
                met_event_type = (if has_lobbyist_col then cell cols 2 else cell cols 1),
                met_payee_vendor = (if has_lobbyist_col then cell cols 3 else cell cols 2),
                met_attendees = (if has_lobbyist_col then cell cols 4 else cell cols 3),
                met_amount =
                  (if has_lobbyist_col then amount_of fl (cell cols 5)
                   else amount_of fl (cell cols 4)) \<rparr>))"

definition parse_met_expenses ::
  "(string \<Rightarrow> 'f option) \<Rightarrow> (string \<Rightarrow> timestamp) \<Rightarrow> node option \<Rightarrow> string \<Rightarrow> string option
    \<Rightarrow> ('f::zero) met_expense list" where
  "parse_met_expenses fl dt table disclosure_id lobbyist_name =
     (case table of
        None \<Rightarrow> []
      | Some t \<Rightarrow>
          if \<not> contains ''No meals, travel, or entertainment expenses'' (get_text t) then
            (let rows = find_all t (is_tag ''tr'') in
             if 1 < length rows
             then List.map_filter (met_expense_row fl dt disclosure_id lobbyist_name) (tl rows)
             else [])
          else [])"

subsection \<open>parse\_operating\_expenses\<close>

definition operating_expense_row ::
  "(string \<Rightarrow> 'f option) \<Rightarrow> (string \<Rightarrow> timestamp) \<Rightarrow> string \<Rightarrow> node
    \<Rightarrow> ('f::zero) operating_expense option" where
  "operating_expense_row fl dt disclosure_id row =
     (let cols = find_all row (is_tag ''td'') in
      if contains ''Total operating expenses'' (get_text row) \<or> length cols < 4 then None
      else Some \<lparr> op_disclosure_id = disclosure_id,
                  op_date = format_date dt (Some (cell cols 0)),
                  op_recipient = cell cols 1,
                  op_type_of_expense = cell cols 2,
                  op_amount = amount_of fl (cell cols 3) \<rparr>)"

definition parse_operating_expenses ::
  "(string \<Rightarrow> 'f option) \<Rightarrow> (string \<Rightarrow> timestamp) \<Rightarrow> soup \<Rightarrow> string
    \<Rightarrow> ('f::zero) operating_expense list" where
  "parse_operating_expenses fl dt soup disclosure_id =
     (case find_first soup (\<lambda>n. is_tag ''table'' n \<and> id_contains ''grdvOperatingExpenses'' n) of
        None \<Rightarrow> []
      | Some table \<Rightarrow>
          if \<not> contains ''No operating expenses were filed'' (get_text table) then
            List.map_filter (operating_expense_row fl dt disclosure_id)
              (tl (find_all table (is_tag ''tr'')))
          else [])"

subsection \<open>parse\_additional\_expenses\<close>

definition additional_expense_row ::
  "(string \<Rightarrow> 'f option) \<Rightarrow> (string \<Rightarrow> timestamp) \<Rightarrow> string \<Rightarrow> node
    \<Rightarrow> ('f::zero) additional_expense option" where
  "additional_expense_row fl dt disclosure_id row =
     (let cols = find_all row (is_tag ''td'') in
      if contains ''Total additional expenses'' (get_text row) \<or> length cols < 6 then None
      else Some \<lparr> add_disclosure_id = disclosure_id,
                  add_date = format_date dt (Some (cell cols 0)),
                  add_lobbyist_name = cell cols 1,
                  add_recipient_name = cell cols 2,
                  add_type_of_expense = cell cols 3,
                  add_description = cell cols 4,
                  add_amount = amount_of fl (cell cols 5) \<rparr>)"

text \<open>The body of the loop over the tables: the records of one table.\<close>

definition additional_expense_table ::
  "(string \<Rightarrow> 'f option) \<Rightarrow> (string \<Rightarrow> timestamp) \<Rightarrow> string \<Rightarrow> node
    \<Rightarrow> ('f::zero) additional_expense list" where
  "additional_expense_table fl dt disclosure_id table =
     (if contains ''No additional expenses were filed'' (get_text table) then []
      else List.map_filter (additional_expense_row fl dt disclosure_id)
             (tl (find_all table (is_tag ''tr''))))"

definition parse_additional_expenses ::
  "(string \<Rightarrow> 'f option) \<Rightarrow> (string \<Rightarrow> timestamp) \<Rightarrow> soup \<Rightarrow> string
    \<Rightarrow> ('f::zero) additional_expense list" where
  "parse_additional_expenses fl dt soup disclosure_id =
     concat (map (additional_expense_table fl dt disclosure_id)
       (find_all soup (\<lambda>n. is_tag ''table'' n \<and> id_contains ''grdvAdditionalExpenses'' n)))"

section \<open>Lobbyist reports\<close>

text \<open>\<open>bool(first_name and last_name)\<close>.\<close>

definition filer_is_individual :: "string \<Rightarrow> string \<Rightarrow> bool" where
  "filer_is_individual first_name last_name = (first_name \<noteq> [] \<and> last_name \<noteq> [])"

definition activity_row ::
  "(string \<Rightarrow> 'f option) \<Rightarrow> string \<Rightarrow> string \<Rightarrow> string \<Rightarrow> node \<Rightarrow> ('f::zero) activity option" where
  "activity_row fl disclosure_id current_lobbyist current_client row =
     (let cols = find_all row (is_tag ''td'') in
      if contains ''Total amount'' (get_text row) \<or> length cols < 6 then None
      else Some \<lparr> act_disclosure_id = disclosure_id,
                  act_individual_lobbyist_name = current_lobbyist,
                  act_client_name = current_client,
                  act_house_senate = cell cols 0,
                  act_bill_or_agency = cell cols 1,
                  act_bill_title = cell cols 2,
                  act_agent_position = cell cols 3,
                  act_amount = amount_of fl (cell cols 4),
                  act_business_association = cell cols 5 \<rparr>)"

text \<open>The names that scope an activity table, from the placed nodes before the table.\<close>

definition current_lobbyist :: "string \<Rightarrow> string \<Rightarrow> string \<Rightarrow> placed list \<Rightarrow> string" where
  "current_lobbyist first_name last_name employer_name prev =
     (let default = (if filer_is_individual first_name last_name
                     then strip (first_name @ '' '' @ last_name) else employer_name)
      in case find_previous prev (label_tag ''td'' ''Lobbyist:'') of
           None \<Rightarrow> default
         | Some lobbyist_header_td \<Rightarrow>
             (case find_next_sibling lobbyist_header_td ''td'' of
                None \<Rightarrow> default
              | Some lobbyist_name_td \<Rightarrow> get_text_strip lobbyist_name_td))"

definition current_client :: "string \<Rightarrow> placed list \<Rightarrow> string" where
  "current_client employer_name prev =
     (case find_previous prev (label_tag ''td'' ''Client:'') of
        Some client_header_td \<Rightarrow>
          (case find_next_sibling client_header_td ''td'' of
             None \<Rightarrow> employer_name
           | Some client_name_td \<Rightarrow> get_text_strip client_name_td)
      | None \<Rightarrow>
          (case find_previous prev (label_tag ''strong'' ''Client:'') of
             Some client_header_strong \<Rightarrow>
               (case find_next_sibling client_header_strong ''span'' of
                  None \<Rightarrow> employer_name
                | Some client_name_span \<Rightarrow> get_text_strip client_name_span)
           | None \<Rightarrow> employer_name))"

text \<open>The body of the loop over the activity tables.\<close>

definition activity_table ::
  "(string \<Rightarrow> 'f option) \<Rightarrow> string \<Rightarrow> string \<Rightarrow> string \<Rightarrow> string \<Rightarrow> placed list \<times> placed
    \<Rightarrow> ('f::zero) activity list" where
  "activity_table fl disclosure_id first_name last_name employer_name tbl =
     (let prev = fst tbl;
          table = fst (snd tbl);
          rows = find_all table (is_tag ''tr'')
      in if 1 < length rows
         then List.map_filter
                (activity_row fl disclosure_id
                   (current_lobbyist first_name last_name employer_name prev)
                   (current_client employer_name prev))
                (tl rows)
         else [])"

text \<open>The body of the loop over the tables of meals, entertainment and travel.\<close>

definition met_expense_table ::
  "(string \<Rightarrow> 'f option) \<Rightarrow> (string \<Rightarrow> timestamp) \<Rightarrow> string \<Rightarrow> string \<Rightarrow> string
    \<Rightarrow> placed list \<times> placed \<Rightarrow> ('f::zero) met_expense list" where
  "met_expense_table fl dt disclosure_id first_name last_name tbl =
     (let lobbyist_name =
            (case find_previous (fst tbl)
                    (\<lambda>n. is_tag ''span'' n \<and> id_contains ''lblLobbyistName'' n) of
               Some lobbyist_name_element \<Rightarrow>
                 replace ''Lobbyist: '' [] (get_text_strip (fst lobbyist_name_element))
             | None \<Rightarrow> strip (first_name @ '' '' @ last_name))
      in parse_met_expenses fl dt (Some (fst (snd tbl))) disclosure_id (Some lobbyist_name))"

definition contribution_row ::
  "(string \<Rightarrow> 'f option) \<Rightarrow> (string \<Rightarrow> timestamp) \<Rightarrow> string \<Rightarrow> node
    \<Rightarrow> ('f::zero) contribution option" where
  "contribution_row fl dt disclosure_id row =
     (let cols = find_all row (is_tag ''td'') in
      if contains ''Total contributions'' (get_text row) \<or> length cols < 4 then None
      else Some \<lparr> con_disclosure_id = disclosure_id,
                  con_date = format_date dt (Some (cell cols 0)),
                  con_recipient_name = cell cols 1,
                  con_office_sought = cell cols 2,
                  con_amount = amount_of fl (cell cols 3) \<rparr>)"

definition contributions_block ::
  "(string \<Rightarrow> 'f option) \<Rightarrow> (string \<Rightarrow> timestamp) \<Rightarrow> soup \<Rightarrow> string
    \<Rightarrow> ('f::zero) contribution list" where
  "contributions_block fl dt soup disclosure_id =
     (case find_first soup (\<lambda>n. is_tag ''table'' n \<and> id_contains ''grdvCampaignContribution'' n) of
        None \<Rightarrow> []
      | Some contributions_table \<Rightarrow>
          if \<not> contains ''No campaign contributions were filed'' (get_text contributions_table)
          then (let rows = find_all contributions_table (is_tag ''tr'') in
                if 1 < length rows
                then List.map_filter (contribution_row fl dt disclosure_id) (tl rows)
                else [])
          else [])"

type_synonym 'f lobbyist_bundle =
  "lobbyist_info \<times> 'f activity list \<times> 'f met_expense list \<times> 'f operating_expense list
     \<times> 'f additional_expense list \<times> 'f contribution list"

definition parse_lobbyist_report ::
  "(string \<Rightarrow> 'f option) \<Rightarrow> (string \<Rightarrow> timestamp) \<Rightarrow> soup \<Rightarrow> string \<Rightarrow> ('f::zero) lobbyist_bundle" where
  "parse_lobbyist_report fl dt soup disclosure_id =
     (let employer_name = safe_get_text soup ''span''
            ''ContentPlaceHolder1_LRegistrationInfoReview1_lblLobbyistCompany'';
          first_name = safe_get_text soup ''span''
            ''ContentPlaceHolder1_LRegistrationInfoReview1_lblLobbyistFirstName'';
          last_name = safe_get_text soup ''span''
            ''ContentPlaceHolder1_LRegistrationInfoReview1_lblLobbyistLastName'';
          lobbyist_info =
            \<lparr> lob_disclosure_id = disclosure_id,
              lob_first_name = (if first_name \<noteq> [] then first_name else employer_name),
              lob_last_name = last_name,
              lob_employer_name = employer_name,
              lob_is_incidental =
                (find_first soup (\<lambda>n. is_tag ''span'' n \<and> has_id
                    ''ContentPlaceHolder1_LRegistrationInfoReview1_lblIncidental'' n) \<noteq> None) \<rparr>;
          activities =
            concat (map (activity_table fl disclosure_id first_name last_name employer_name)
              (find_all_placed soup (\<lambda>n. is_tag ''table'' n \<and> id_contains ''grdvActivitiesNew'' n)));
          met_expenses =
            concat (map (met_expense_table fl dt disclosure_id first_name last_name)
              (find_all_placed soup (\<lambda>n. is_tag ''table'' n \<and> id_contains ''grdvMETExpenses'' n)));
          operating_expenses = parse_operating_expenses fl dt soup disclosure_id;
          additional_expenses = parse_additional_expenses fl dt soup disclosure_id;
          contributions = contributions_block fl dt soup disclosure_id
      in (lobbyist_info, activities, met_expenses, operating_expenses, additional_expenses,
          contributions))"

section \<open>Client reports\<close>

definition compensation_row ::
  "(string \<Rightarrow> 'f option) \<Rightarrow> string \<Rightarrow> node \<Rightarrow> ('f::zero) compensation option" where
  "compensation_row fl disclosure_id row =
     (let cols = find_all row (is_tag ''td'') in
      if contains ''Total'' (get_text row) \<or> length cols < 2 then None
      else Some \<lparr> comp_disclosure_id = disclosure_id,
                  comp_payee_name = cell cols 0,
                  comp_amount = amount_of fl (cell cols 1) \<rparr>)"

type_synonym 'f client_bundle =
  "client_info \<times> 'f compensation list \<times> 'f met_expense list \<times> 'f operating_expense list
     \<times> 'f additional_expense list"

definition parse_client_report ::
  "(string \<Rightarrow> 'f option) \<Rightarrow> (string \<Rightarrow> timestamp) \<Rightarrow> soup \<Rightarrow> string \<Rightarrow> ('f::zero) client_bundle" where
  "parse_client_report fl dt soup disclosure_id =
     (let client_name = safe_get_text soup ''span''
            ''ContentPlaceHolder1_CRegistrationInfoReview1_lblClientCompany'';
          officer_first = safe_get_text soup ''span''
            ''ContentPlaceHolder1_CRegistrationInfoReview1_lblClientAuthorizingOfficerFirstName'';
          officer_last = safe_get_text soup ''span''
            ''ContentPlaceHolder1_CRegistrationInfoReview1_lblClientAuthorizingOfficerLastName'';
          client_info =
            \<lparr> cli_disclosure_id = disclosure_id,
              cli_client_name = client_name,
              cli_auth_officer_name = strip (officer_first @ '' '' @ officer_last),
              cli_business_interest = safe_get_text soup ''span''
                ''ContentPlaceHolder1_CRegistrationInfoReview1_lblBusinessInterest'' \<rparr>;
          compensations =
            (case find_first soup (\<lambda>n. is_tag ''table'' n \<and> has_id
                     ''ContentPlaceHolder1_DisclosureReviewDetail1_grdvSalaryPaid'' n) of
               None \<Rightarrow> []
             | Some comp_table \<Rightarrow>
                 List.map_filter (compensation_row fl disclosure_id)
                   (tl (find_all comp_table (is_tag ''tr''))));
          met_expenses =
            parse_met_expenses fl dt
              (find_first soup (\<lambda>n. is_tag ''table'' n \<and> id_contains ''grdvMETExpenses'' n))
              disclosure_id None;
          operating_expenses = parse_operating_expenses fl dt soup disclosure_id;
          additional_expenses = parse_additional_expenses fl dt soup disclosure_id
      in (client_info, compensations, met_expenses, operating_expenses, additional_expenses))"

section \<open>The batch\<close>

subsection \<open>The identifier of a document\<close>

text \<open>
  \<open>re.search(r'sysvalue=(.+)\.html', filename)\<close>. \<open>dot_plus_then lit acc s\<close> matches \<open>(.+)\<close>
  followed by the plain characters \<open>lit\<close> at the start of \<open>s\<close> and gives the group: \<open>.\<close> is any
  character but the line feed, \<open>+\<close> takes as many characters as it can and gives them back
  one at a time; \<open>acc\<close> is the part of the group read so far. \<open>search_sysvalue\<close> tries every
  start from left to right.
\<close>

fun dot_plus_then :: "string \<Rightarrow> string \<Rightarrow> string \<Rightarrow> string option" where
  "dot_plus_then lit acc [] = None"
| "dot_plus_then lit acc (c # cs) =
     (if c = CHR 0x0A then None
      else (case dot_plus_then lit (acc @ [c]) cs of
              Some g \<Rightarrow> Some g
            | None \<Rightarrow> if startswith cs lit then Some (acc @ [c]) else None))"

fun search_sysvalue :: "string \<Rightarrow> string option" where
  "search_sysvalue [] = None"
| "search_sysvalue (c # cs) =
     (if startswith (c # cs) ''sysvalue='' then
        (case dot_plus_then ''.html'' [] (drop (length ''sysvalue='') (c # cs)) of
           Some g \<Rightarrow> Some g
         | None \<Rightarrow> search_sysvalue cs)
      else search_sysvalue cs)"

text \<open>
  \<open>os.path.splitext(p)\<close> (\<open>posixpath\<close>): the extension begins at the last dot of \<open>p\<close>, if that
  dot comes after the last slash and some character between the two is not a dot.
  \<open>rfind\<close> is \<open>str.rfind\<close> for one character.
\<close>

definition rfind :: "string \<Rightarrow> char \<Rightarrow> int" where
  "rfind p c =
     (if c \<in> set p then int (length p) - 1 - int (length (takeWhile (\<lambda>x. x \<noteq> c) (rev p)))
      else - 1)"

definition splitext :: "string \<Rightarrow> string \<times> string" where
  "splitext p =
     (let sepIndex = rfind p CHR ''/'';
          dotIndex = rfind p CHR ''.''
      in if sepIndex < dotIndex
            \<and> list_ex (\<lambda>k. p ! k \<noteq> CHR ''.'') [nat (sepIndex + 1) ..< nat dotIndex]
         then (take (nat dotIndex) p, drop (nat dotIndex) p)
         else (p, []))"

definition derive_disclosure_id :: "string \<Rightarrow> string" where
  "derive_disclosure_id filename =
     (case search_sysvalue filename of
        Some g \<Rightarrow> replace ''%2f'' ''/'' g
      | None \<Rightarrow> fst (splitext filename))"

subsection \<open>The loop of main\<close>

text \<open>The lists and the counters that \<open>main\<close> fills, one field for each variable.\<close>

record 'f batch =
  skipped_files_log :: "string list"
  disclosure_reports_list :: "disclosure_report list"
  lobbyists_list :: "lobbyist_info list"
  clients_list :: "client_info list"
  compensations_list :: "'f compensation list"
  lobbying_activities_list :: "'f activity list"
  met_expenses_list :: "'f met_expense list"
  operating_expenses_list :: "'f operating_expense list"
  additional_expenses_list :: "'f additional_expense list"
  contributions_list :: "'f contribution list"
  processed_count :: nat
  skipped_bad_filename :: nat
  skipped_no_header :: nat
  skipped_other_error :: nat

definition empty_batch :: "'f batch" where
  "empty_batch =
     \<lparr> skipped_files_log = [], disclosure_reports_list = [], lobbyists_list = [],
       clients_list = [], compensations_list = [], lobbying_activities_list = [],
       met_expenses_list = [], operating_expenses_list = [], additional_expenses_list = [],
       contributions_list = [], processed_count = 0, skipped_bad_filename = 0,
       skipped_no_header = 0, skipped_other_error = 0 \<rparr>"

text \<open>The handler \<open>except Exception as e\<close>.\<close>

definition parsing_error :: "'f batch \<Rightarrow> string \<Rightarrow> py_error \<Rightarrow> 'f batch" where
  "parsing_error b filename e =
     b \<lparr> skipped_other_error := skipped_other_error b + 1,
         skipped_files_log := skipped_files_log b
           @ [filename @ '' (Reason: Parsing Error - '' @ exc_message e @ '')''] \<rparr>"

text \<open>
  The body of the loop over the files, for a file name and the tree parsed from the file.
  The calls of \<open>parse_lobbyist_report\<close> and \<open>parse_client_report\<close> stand inside the
  \<open>try\<close> block. In this development the two functions are total, while in Python a call
  inside them may raise; \<open>loop_body_with\<close> is the body of the loop for any outcome of the
  two calls, an exception or a bundle, and \<open>loop_body\<close> is the body with the two functions
  as they are defined above.
\<close>

definition loop_body_with ::
  "(soup \<Rightarrow> string \<Rightarrow> py_error + 'f lobbyist_bundle) \<Rightarrow> (soup \<Rightarrow> string \<Rightarrow> py_error + 'f client_bundle)
    \<Rightarrow> 'f batch \<Rightarrow> string \<times> soup \<Rightarrow> 'f batch" where
  "loop_body_with lobbyist_parser client_parser b file =
     (let filename = fst file;
          soup = snd file;
          disclosure_id = derive_disclosure_id filename
      in case find_first soup
                (\<lambda>n. is_tag ''span'' n \<and> has_id ''ContentPlaceHolder1_lblDisclosureHeader'' n) of
           None \<Rightarrow>
             b \<lparr> skipped_no_header := skipped_no_header b + 1,
                 skipped_files_log := skipped_files_log b
                   @ [filename @ '' (Reason: Invalid Content / No Header)''] \<rparr>
         | Some header_element \<Rightarrow>
             (let header_text = get_text_strip header_element;
                  report_type = (if contains ''Lobbyist'' header_text then ''Lobbyist'' else ''Client'');
                  period_str = safe_get_text soup ''span'' ''ContentPlaceHolder1_lblYear''
              in case parse_date_range period_str of
                   Inl e \<Rightarrow> parsing_error b filename e
                 | Inr (start_date, end_date) \<Rightarrow>
                     (let b1 = b \<lparr> disclosure_reports_list := disclosure_reports_list b
                                 @ [\<lparr> rep_disclosure_id = disclosure_id,
                                      rep_report_type = report_type,
                                      rep_period_start_date = start_date,
                                      rep_period_end_date = end_date \<rparr>] \<rparr>
                      in if contains ''Lobbyist'' report_type then
                           (case lobbyist_parser soup disclosure_id of
                              Inl e \<Rightarrow> parsing_error b1 filename e
                            | Inr (lobbyist_info, activities, met_expenses, operating_expenses,
                                   additional_expenses, contributions) \<Rightarrow>
                                b1 \<lparr> lobbyists_list := lobbyists_list b1 @ [lobbyist_info],
                                     lobbying_activities_list :=
                                       lobbying_activities_list b1 @ activities,
                                     met_expenses_list := met_expenses_list b1 @ met_expenses,
                                     operating_expenses_list :=
                                       operating_expenses_list b1 @ operating_expenses,
                                     additional_expenses_list :=
                                       additional_expenses_list b1 @ additional_expenses,
                                     contributions_list := contributions_list b1 @ contributions,
                                     processed_count := processed_count b1 + 1 \<rparr>)
                         else
                           (case client_parser soup disclosure_id of
                              Inl e \<Rightarrow> parsing_error b1 filename e
                            | Inr (client_info, compensations, met_expenses, operating_expenses,
                                   additional_expenses) \<Rightarrow>
                                b1 \<lparr> clients_list := clients_list b1 @ [client_info],
                                     compensations_list := compensations_list b1 @ compensations,
                                     met_expenses_list := met_expenses_list b1 @ met_expenses,
                                     operating_expenses_list :=
                                       operating_expenses_list b1 @ operating_expenses,
                                     additional_expenses_list :=
                                       additional_expenses_list b1 @ additional_expenses,
                                     processed_count := processed_count b1 + 1 \<rparr>))))"

definition loop_body ::
  "(string \<Rightarrow> 'f option) \<Rightarrow> (string \<Rightarrow> timestamp) \<Rightarrow> ('f::zero) batch \<Rightarrow> string \<times> soup \<Rightarrow> 'f batch" where
  "loop_body fl dt =
     loop_body_with (\<lambda>soup disclosure_id. Inr (parse_lobbyist_report fl dt soup disclosure_id))
       (\<lambda>soup disclosure_id. Inr (parse_client_report fl dt soup disclosure_id))"

subsection \<open>The data frames\<close>

text \<open>
  \<open>DataFrame.drop_duplicates(subset=['disclosure_id'])\<close> keeps a row unless a row before it
  has the same key; \<open>seen\<close> holds the keys of the rows read so far.
\<close>

fun drop_duplicates_from :: "'k list \<Rightarrow> ('a \<Rightarrow> 'k) \<Rightarrow> 'a list \<Rightarrow> 'a list" where
  "drop_duplicates_from seen key [] = []"
| "drop_duplicates_from seen key (x # xs) =
     (if key x \<in> set seen then drop_duplicates_from seen key xs
      else x # drop_duplicates_from (key x # seen) key xs)"

definition drop_duplicates :: "('a \<Rightarrow> 'k) \<Rightarrow> 'a list \<Rightarrow> 'a list" where
  "drop_duplicates key xs = drop_duplicates_from [] key xs"

record 'f data_frames =
  df_reports :: "disclosure_report list"
  df_lobbyists :: "lobbyist_info list"
  df_clients :: "client_info list"
  df_compensations :: "'f compensation list"
  df_activities :: "'f activity list"
  df_met_expenses :: "'f met_expense list"
  df_operating_expenses :: "'f operating_expense list"
  df_additional_expenses :: "'f additional_expense list"
  df_contributions :: "'f contribution list"

definition data_frames_of :: "'f batch \<Rightarrow> 'f data_frames" where
  "data_frames_of b =
     \<lparr> df_reports = disclosure_reports_list b,
       df_lobbyists = (if lobbyists_list b \<noteq> []
                       then drop_duplicates lob_disclosure_id (lobbyists_list b) else []),
       df_clients = (if clients_list b \<noteq> []
                     then drop_duplicates cli_disclosure_id (clients_list b) else []),
       df_compensations = compensations_list b,
       df_activities = lobbying_activities_list b,
       df_met_expenses = met_expenses_list b,
       df_operating_expenses = operating_expenses_list b,
       df_additional_expenses = additional_expenses_list b,
       df_contributions = contributions_list b \<rparr>"

text \<open>
  \<open>main\<close> on the listing of \<open>html_files\<close>, each file name with the tree that BeautifulSoup
  parses from the file: the lists after the loop, and the data frames written as CSV files.
\<close>

definition run_loop ::
  "(string \<Rightarrow> 'f option) \<Rightarrow> (string \<Rightarrow> timestamp) \<Rightarrow> (string \<times> soup) list \<Rightarrow> ('f::zero) batch" where
  "run_loop fl dt listing =
     (let all_files = filter (\<lambda>file. endswith (fst file) ''.html'') listing
      in foldl (loop_body fl dt) empty_batch all_files)"

definition main ::
  "(string \<Rightarrow> 'f option) \<Rightarrow> (string \<Rightarrow> timestamp) \<Rightarrow> (string \<times> soup) list \<Rightarrow> ('f::zero) data_frames" where
  "main fl dt listing = data_frames_of (run_loop fl dt listing)"

text \<open>The \<open>disclosure_id\<close>s of all the records of a batch, list by list.\<close>

definition disclosure_ids :: "'f batch \<Rightarrow> string list" where
  "disclosure_ids b =
     map rep_disclosure_id (disclosure_reports_list b)
     @ map lob_disclosure_id (lobbyists_list b)
     @ map cli_disclosure_id (clients_list b)
     @ map comp_disclosure_id (compensations_list b)
     @ map act_disclosure_id (lobbying_activities_list b)
     @ map met_disclosure_id (met_expenses_list b)
     @ map op_disclosure_id (operating_expenses_list b)
     @ map add_disclosure_id (additional_expenses_list b)
     @ map con_disclosure_id (contributions_list b)"

text \<open>
  The documents that the loop reads as lobbyist reports and as client reports: files named
  \<open>*.html\<close> whose header span is found, by the word \<open>Lobbyist\<close> in the text of the header.
\<close>

definition is_lobbyist_document :: "string \<times> soup \<Rightarrow> bool" where
  "is_lobbyist_document file =
     (endswith (fst file) ''.html''
      \<and> (case find_first (snd file)
                 (\<lambda>n. is_tag ''span'' n \<and> has_id ''ContentPlaceHolder1_lblDisclosureHeader'' n) of
            None \<Rightarrow> False
          | Some header_element \<Rightarrow> contains ''Lobbyist'' (get_text_strip header_element)))"

definition is_client_document :: "string \<times> soup \<Rightarrow> bool" where
  "is_client_document file =
     (endswith (fst file) ''.html''
      \<and> (case find_first (snd file)
                 (\<lambda>n. is_tag ''span'' n \<and> has_id ''ContentPlaceHolder1_lblDisclosureHeader'' n) of
            None \<Rightarrow> False
          | Some header_element \<Rightarrow> \<not> contains ''Lobbyist'' (get_text_strip header_element)))"

section \<open>Sample library functions\<close>

text \<open>
  For running the extractor on concrete documents: a \<open>float\<close> that reads plain decimal
  numerals, with rationals for floats, and a \<open>to_datetime\<close> that knows the format
  \<open>%m/%d/%Y\<close> only.
\<close>

definition sample_float :: "string \<Rightarrow> rat option" where
  "sample_float s =
     (case split_on CHR ''.'' s of
        [i] \<Rightarrow> if i \<noteq> [] \<and> list_all isdigit i then Some (of_int (int_of_digits i)) else None
      | [i, f] \<Rightarrow>
          if (i \<noteq> [] \<or> f \<noteq> []) \<and> list_all isdigit i \<and> list_all isdigit f
          then Some (of_int (int_of_digits (i @ f)) / 10 ^ length f) else None
      | _ \<Rightarrow> None)"

definition sample_to_datetime :: "string \<Rightarrow> timestamp" where
  "sample_to_datetime s = (case to_datetime_mdY s of Inr t \<Rightarrow> t | Inl e \<Rightarrow> NaT)"

section \<open>Sample documents\<close>

text \<open>Trees of disclosure pages, built from cells, rows and labelled spans.\<close>

definition td :: "string \<Rightarrow> node" where
  "td s = Tag ''td'' [] [NavigableString s]"

definition th :: "string \<Rightarrow> node" where
  "th s = Tag ''th'' [] [NavigableString s]"

definition tr :: "node list \<Rightarrow> node" where
  "tr cells = Tag ''tr'' [] cells"

definition table_id :: "string \<Rightarrow> node list \<Rightarrow> node" where
  "table_id i rows = Tag ''table'' [(''id'', i)] rows"

definition span_id :: "string \<Rightarrow> string \<Rightarrow> node" where
  "span_id i s = Tag ''span'' [(''id'', i)] [NavigableString s]"

definition page :: "node list \<Rightarrow> soup" where
  "page body = Tag ''[document]'' [] [Tag ''html'' [] [Tag ''body'' [] body]]"

text \<open>
  A lobbyist report of an individual, Jane Doe, with no employer field and one activity
  table with no label before it.
\<close>

definition lobbyist_page :: soup where
  "lobbyist_page = page
     [span_id ''ContentPlaceHolder1_lblDisclosureHeader'' ''Lobbyist Disclosure Report'',
      span_id ''ContentPlaceHolder1_LRegistrationInfoReview1_lblLobbyistFirstName'' ''Jane'',
      span_id ''ContentPlaceHolder1_LRegistrationInfoReview1_lblLobbyistLastName'' ''Doe'',
      table_id ''ContentPlaceHolder1_grdvActivitiesNew''
        [tr [th ''House/Senate''],
         tr [td ''House'', td ''H.100'', td ''An Act'', td ''Support'', td ''$1,500.00'',
             td ''None'']]]"

text \<open>
  Rows of a table of meals, entertainment and travel with five and with six cells, a table
  with the row of five cells, and a client report whose table has both rows.
\<close>

definition met_row5 :: node where
  "met_row5 = tr [td ''03/04/2024'', td ''Lunch'', td ''Cafe'', td ''Staff'', td ''$45.10'']"

definition met_row6 :: node where
  "met_row6 = tr [td ''03/05/2024'', td ''John Roe'', td ''Dinner'', td ''Grill'', td ''Board'',
                  td ''$80.00'']"

definition met_table5 :: node where
  "met_table5 = table_id ''ContentPlaceHolder1_grdvMETExpenses'' [tr [th ''Date''], met_row5]"

definition client_met_table :: node where
  "client_met_table =
     table_id ''ContentPlaceHolder1_grdvMETExpenses'' [tr [th ''Date''], met_row5, met_row6]"

definition client_page :: soup where
  "client_page = page
     [span_id ''ContentPlaceHolder1_lblDisclosureHeader'' ''Client Disclosure Report'',
      client_met_table]"


text \<open>
  A page with two tables of operating expenses: the first says that no expenses were
  filed, the second has one row of data.
\<close>

definition operating_table_none :: node where
  "operating_table_none =
     table_id ''ContentPlaceHolder1_grdvOperatingExpenses''
       [tr [td ''No operating expenses were filed for this period'']]"

definition operating_table_rent :: node where
  "operating_table_rent =
     table_id ''ContentPlaceHolder2_grdvOperatingExpenses''
       [tr [th ''Date''],
        tr [td ''01/15/2024'', td ''Landlord'', td ''Rent'', td ''$900.00'']]"

definition two_operating_page :: soup where
  "two_operating_page = page [operating_table_none, operating_table_rent]"

text \<open>
  Two lobbyist reports of organizations whose file names give the same identifier \<open>X1\<close>,
  in the order in which the directory lists them.
\<close>

definition first_seen_page :: soup where
  "first_seen_page = page
     [span_id ''ContentPlaceHolder1_lblDisclosureHeader'' ''Lobbyist Disclosure Report'',
      span_id ''ContentPlaceHolder1_LRegistrationInfoReview1_lblLobbyistCompany'' ''First Seen LLC'']"

definition second_seen_page :: soup where
  "second_seen_page = page
     [span_id ''ContentPlaceHolder1_lblDisclosureHeader'' ''Lobbyist Disclosure Report'',
      span_id ''ContentPlaceHolder1_LRegistrationInfoReview1_lblLobbyistCompany'' ''Second Seen LLC'']"

definition two_copies :: "(string \<times> soup) list" where
  "two_copies = [(''a_sysvalue=X1.html'', first_seen_page), (''b_sysvalue=X1.html'', second_seen_page)]"



section \<open>Properties of the normalizers\<close>

lemma replace_from_single: "replace_from [c] [] 0 s = filter (\<lambda>x. x \<noteq> c) s"
  by (induction s) auto

lemma replace_single: "replace [c] [] s = filter (\<lambda>x. x \<noteq> c) s"
  by (simp add: replace_def replace_from_single)

lemma clean_currency_returns:
  "clean_currency fl text =
     Inr (case text of
            None \<Rightarrow> 0
          | Some t \<Rightarrow>
              if strip t = [] then 0
              else (case fl (strip (replace '','' [] (replace ''$'' [] t))) of
                      None \<Rightarrow> 0
                    | Some v \<Rightarrow> v))"
  by (simp add: clean_currency_def clean_currency_try_def py_float_def
      split: option.splits)

text \<open>
  C8. \<open>clean_currency\<close> never raises: on \<open>None\<close> and on every string it returns a float. The
  float is \<open>0.0\<close> for \<open>None\<close>, for a string that is empty or white space, and for a string
  that \<open>float\<close> does not read once the dollar signs and the commas are taken out and the
  ends are stripped; otherwise it is the float that \<open>float\<close> reads there. On
  \<open>"$1,234.50"\<close> that is the float of \<open>"1234.50"\<close>.
\<close>

theorem clean_currency_never_raises:
  "clean_currency fl text =
     Inr (case text of
            None \<Rightarrow> 0
          | Some t \<Rightarrow>
              if strip t = [] then 0
              else (case fl (strip (filter (\<lambda>c. c \<noteq> CHR ''$'' \<and> c \<noteq> CHR '','') t)) of
                      None \<Rightarrow> 0
                    | Some v \<Rightarrow> v))
   \<and> clean_currency fl (Some ''$1,234.50'') = Inr (case fl ''1234.50'' of None \<Rightarrow> 0 | Some v \<Rightarrow> v)
   \<and> clean_currency fl (Some []) = Inr 0
   \<and> clean_currency fl None = Inr 0"
proof -
  have f: "replace '','' [] (replace ''$'' [] t) = filter (\<lambda>c. c \<noteq> CHR ''$'' \<and> c \<noteq> CHR '','') t" for t
    by (simp add: replace_single conj_commute)
  have ex: "strip ''$1,234.50'' = ''$1,234.50''" "strip ''1234.50'' = ''1234.50''" "strip [] = []"
    by (simp_all add: strip_def lstrip_def rstrip_def isspace_def whitespace_def)
  show ?thesis
    by (simp add: clean_currency_returns f ex split: option.splits)
qed

lemma to_datetime_mdY_error:
  "to_datetime_mdY s = Inl e \<Longrightarrow> exc_class_of e = ValueError"
  by (auto simp: to_datetime_mdY_def Let_def split: if_splits list.splits)

lemma strftime_Ymd_error:
  "strftime_Ymd t = Inl e \<Longrightarrow> exc_class_of e = ValueError"
  by (auto simp: strftime_Ymd_def split: timestamp.splits)

lemma unpack2_error:
  "unpack2 xs = Inl e \<Longrightarrow> exc_class_of e = ValueError"
  by (auto simp: unpack2_def split: list.splits)

lemma parse_date_range_try_error:
  "parse_date_range_try s = Inl e \<Longrightarrow> exc_class_of e = ValueError"
  by (auto simp: parse_date_range_try_def and_then_def
      dest: to_datetime_mdY_error strftime_Ymd_error unpack2_error split: sum.splits prod.splits)

lemma parse_date_range_try_Inr:
  "parse_date_range_try s = Inr (a, b) \<longleftrightarrow>
     (\<exists>p q d1 d2. map strip (split_on CHR ''-'' s) = [p, q]
        \<and> to_datetime_mdY p = Inr (Timestamp d1) \<and> to_datetime_mdY q = Inr (Timestamp d2)
        \<and> a = format_Ymd d1 \<and> b = format_Ymd d2)"
  by (auto simp: parse_date_range_try_def and_then_def unpack2_def strftime_Ymd_def
      split: sum.splits prod.splits list.splits timestamp.splits)

text \<open>
  C5. \<open>parse_date_range\<close> is all-or-nothing and never raises. Either the string splits at
  the dash into exactly two parts and both parts, stripped, are dates of the format
  \<open>%m/%d/%Y\<close>: then it returns the two dates formatted as \<open>%Y-%m-%d\<close>. Or that is not so:
  then it returns \<open>(None, None)\<close>. \<open>"01/02/2024 - 03/04/2024"\<close> gives
  \<open>("2024-01-02", "2024-03-04")\<close> and \<open>"garbage"\<close> gives \<open>(None, None)\<close>.
\<close>

theorem parse_date_range_all_or_nothing:
  "((\<exists>p q d1 d2. map strip (split_on CHR ''-'' s) = [p, q]
        \<and> to_datetime_mdY p = Inr (Timestamp d1) \<and> to_datetime_mdY q = Inr (Timestamp d2)
        \<and> parse_date_range s = Inr (Some (format_Ymd d1), Some (format_Ymd d2)))
     \<or> ((\<nexists>p q d1 d2. map strip (split_on CHR ''-'' s) = [p, q]
            \<and> to_datetime_mdY p = Inr (Timestamp d1) \<and> to_datetime_mdY q = Inr (Timestamp d2))
         \<and> parse_date_range s = Inr (None, None)))
   \<and> parse_date_range ''01/02/2024 - 03/04/2024'' = Inr (Some ''2024-01-02'', Some ''2024-03-04'')
   \<and> parse_date_range ''garbage'' = Inr (None, None)"
proof (intro conjI)
  show "parse_date_range ''01/02/2024 - 03/04/2024'' = Inr (Some ''2024-01-02'', Some ''2024-03-04'')"
    by code_simp
  show "parse_date_range ''garbage'' = Inr (None, None)"
    by code_simp
  show "(\<exists>p q d1 d2. map strip (split_on CHR ''-'' s) = [p, q]
        \<and> to_datetime_mdY p = Inr (Timestamp d1) \<and> to_datetime_mdY q = Inr (Timestamp d2)
        \<and> parse_date_range s = Inr (Some (format_Ymd d1), Some (format_Ymd d2)))
     \<or> ((\<nexists>p q d1 d2. map strip (split_on CHR ''-'' s) = [p, q]
            \<and> to_datetime_mdY p = Inr (Timestamp d1) \<and> to_datetime_mdY q = Inr (Timestamp d2))
         \<and> parse_date_range s = Inr (None, None))"
  proof (cases "parse_date_range_try s")
    case (Inl e)
    then have "exc_class_of e = ValueError" by (rule parse_date_range_try_error)
    with Inl have r: "parse_date_range s = Inr (None, None)"
      by (simp add: parse_date_range_def)
    have "\<nexists>p q d1 d2. map strip (split_on CHR ''-'' s) = [p, q]
            \<and> to_datetime_mdY p = Inr (Timestamp d1) \<and> to_datetime_mdY q = Inr (Timestamp d2)"
    proof
      assume "\<exists>p q d1 d2. map strip (split_on CHR ''-'' s) = [p, q]
            \<and> to_datetime_mdY p = Inr (Timestamp d1) \<and> to_datetime_mdY q = Inr (Timestamp d2)"
      then obtain p q d1 d2 where "map strip (split_on CHR ''-'' s) = [p, q]"
        "to_datetime_mdY p = Inr (Timestamp d1)" "to_datetime_mdY q = Inr (Timestamp d2)" by auto
      then have "parse_date_range_try s = Inr (format_Ymd d1, format_Ymd d2)"
        by (subst parse_date_range_try_Inr) auto
      with Inl show False by simp
    qed
    with r show ?thesis by simp
  next
    case (Inr ab)
    obtain a b where ab: "ab = (a, b)" by (cases ab)
    with Inr have "parse_date_range_try s = Inr (a, b)" by simp
    then obtain p q d1 d2 where *: "map strip (split_on CHR ''-'' s) = [p, q]"
        "to_datetime_mdY p = Inr (Timestamp d1)" "to_datetime_mdY q = Inr (Timestamp d2)"
        "a = format_Ymd d1" "b = format_Ymd d2"
      unfolding parse_date_range_try_Inr by auto
    from Inr ab * have "parse_date_range s = Inr (Some (format_Ymd d1), Some (format_Ymd d2))"
      by (simp add: parse_date_range_def)
    with * show ?thesis by auto
  qed
qed

section \<open>Properties of the record aggregator\<close>

lemma drop_duplicates_from_keys:
  "key ` set (drop_duplicates_from seen key xs) = key ` set xs - set seen"
  by (induction xs arbitrary: seen) auto

lemma drop_duplicates_from_distinct:
  "distinct (map key (drop_duplicates_from seen key xs))"
proof (induction xs arbitrary: seen)
  case Nil
  show ?case by simp
next
  case (Cons x xs)
  have "key x \<notin> key ` set (drop_duplicates_from (key x # seen) key xs)"
    by (simp add: drop_duplicates_from_keys)
  with Cons show ?case by simp
qed

lemma drop_duplicates_from_find:
  "find (\<lambda>r. key r = k) (drop_duplicates_from seen key xs) =
     (if k \<in> set seen then None else find (\<lambda>r. key r = k) xs)"
proof (induction xs arbitrary: seen)
  case Nil
  show ?case by simp
next
  case (Cons x xs)
  show ?case
  proof (cases "key x \<in> set seen")
    case True
    with Cons show ?thesis by auto
  next
    case False
    with Cons show ?thesis by auto
  qed
qed

section \<open>Properties of the identifier\<close>

lemma dot_plus_then_None:
  "\<not> contains lit (tl s) \<Longrightarrow> lit \<noteq> [] \<Longrightarrow> dot_plus_then lit acc s = None"
proof (induction s arbitrary: acc)
  case Nil
  show ?case by simp
next
  case (Cons c cs)
  show ?case
  proof (cases cs)
    case Nil
    with Cons.prems show ?thesis by (cases lit) auto
  next
    case (Cons d ds)
    with Cons.prems Cons.IH show ?thesis by auto
  qed
qed

lemma dot_plus_then_group:
  "v \<noteq> [] \<Longrightarrow> CHR 0x0A \<notin> set v \<Longrightarrow> dot_plus_then ''.html'' acc (v @ ''.html'') = Some (acc @ v)"
proof (induction v arbitrary: acc)
  case Nil
  then show ?case by simp
next
  case (Cons c v)
  show ?case
  proof (cases "v = []")
    case True
    have "dot_plus_then ''.html'' (acc @ [c]) ''.html'' = None"
      by (rule dot_plus_then_None) simp_all
    with True Cons.prems show ?thesis by simp
  next
    case False
    with Cons have "dot_plus_then ''.html'' (acc @ [c]) (v @ ''.html'') = Some ((acc @ [c]) @ v)"
      by simp
    with Cons.prems show ?thesis by auto
  qed
qed

lemma search_sysvalue_first:
  assumes "\<forall>i<length pre. \<not> startswith (drop i (pre @ rest)) ''sysvalue=''"
  shows "search_sysvalue (pre @ rest) = search_sysvalue rest"
  using assms
proof (induction pre)
  case Nil
  show ?case by simp
next
  case (Cons c pre)
  from Cons.prems have "\<not> startswith (drop 0 ((c # pre) @ rest)) ''sysvalue=''"
    by blast
  then have h: "\<not> startswith (c # pre @ rest) ''sysvalue=''" by simp
  have "\<forall>i<length pre. \<not> startswith (drop i (pre @ rest)) ''sysvalue=''"
  proof (intro allI impI)
    fix i assume "i < length pre"
    then have "Suc i < length (c # pre)" by simp
    with Cons.prems have "\<not> startswith (drop (Suc i) ((c # pre) @ rest)) ''sysvalue=''" by blast
    then show "\<not> startswith (drop i (pre @ rest)) ''sysvalue=''" by simp
  qed
  with Cons.IH have "search_sysvalue (pre @ rest) = search_sysvalue rest" by simp
  with h show ?case by (simp del: startswith.simps)
qed

lemma search_sysvalue_here:
  assumes "v \<noteq> []" "CHR 0x0A \<notin> set v"
  shows "search_sysvalue (''sysvalue='' @ v @ ''.html'') = Some v"
proof -
  have "dot_plus_then ''.html'' [] (v @ ''.html'') = Some ([] @ v)"
    using assms by (rule dot_plus_then_group)
  then show ?thesis by simp
qed

lemma search_sysvalue_absent:
  "\<not> contains ''sysvalue='' s \<Longrightarrow> search_sysvalue s = None"
  by (induction s) (auto simp del: startswith.simps)

lemma rfind_dot_html: "rfind (base @ ''.html'') CHR ''.'' = int (length base)"
  by (simp add: rfind_def)

lemma rfind_absent: "c \<notin> set p \<Longrightarrow> rfind p c = - 1"
  by (simp add: rfind_def)

lemma splitext_html:
  assumes "CHR ''/'' \<notin> set base" "\<exists>c\<in>set base. c \<noteq> CHR ''.''"
  shows "splitext (base @ ''.html'') = (base, ''.html'')"
proof -
  have sep: "rfind (base @ ''.html'') CHR ''/'' = - 1"
    using assms(1) by (simp add: rfind_absent)
  from assms(2) obtain k where k: "k < length base" "base ! k \<noteq> CHR ''.''"
    by (auto simp: in_set_conv_nth)
  then have "list_ex (\<lambda>k. (base @ ''.html'') ! k \<noteq> CHR ''.'') [0 ..< length base]"
    by (auto simp: list_ex_iff nth_append)
  then show ?thesis
    by (simp add: splitext_def sep rfind_dot_html)
qed

section \<open>Every record carries the identifier\<close>

lemma set_map_filter_iff:
  "r \<in> set (List.map_filter f xs) \<longleftrightarrow> (\<exists>x\<in>set xs. f x = Some r)"
  by (induction xs) (auto split: option.splits)

lemma map_filter_SomeD:
  "r \<in> set (List.map_filter f xs) \<Longrightarrow> \<exists>x\<in>set xs. f x = Some r"
  by (simp add: set_map_filter_iff)

lemma met_expense_row_id:
  "met_expense_row fl dt d amb row = Some r \<Longrightarrow> met_disclosure_id r = d"
  by (auto simp: met_expense_row_def Let_def split: if_splits)

lemma parse_met_expenses_id:
  "r \<in> set (parse_met_expenses fl dt t d amb) \<Longrightarrow> met_disclosure_id r = d"
  by (auto simp: parse_met_expenses_def Let_def dest!: map_filter_SomeD met_expense_row_id
      split: option.splits if_splits)

lemma parse_operating_expenses_id:
  "r \<in> set (parse_operating_expenses fl dt soup d) \<Longrightarrow> op_disclosure_id r = d"
  by (auto simp: parse_operating_expenses_def operating_expense_row_def Let_def
      dest!: map_filter_SomeD split: option.splits if_splits)

lemma parse_additional_expenses_id:
  "r \<in> set (parse_additional_expenses fl dt soup d) \<Longrightarrow> add_disclosure_id r = d"
  by (auto simp: parse_additional_expenses_def additional_expense_table_def
      additional_expense_row_def Let_def
      dest!: map_filter_SomeD split: option.splits if_splits)

lemma contributions_block_id:
  "r \<in> set (contributions_block fl dt soup d) \<Longrightarrow> con_disclosure_id r = d"
  by (auto simp: contributions_block_def contribution_row_def Let_def
      dest!: map_filter_SomeD split: option.splits if_splits)

lemma activity_table_id:
  "r \<in> set (activity_table fl d first_name last_name employer_name tbl) \<Longrightarrow> act_disclosure_id r = d"
  by (auto simp: activity_table_def activity_row_def Let_def
      dest!: map_filter_SomeD split: option.splits if_splits)

lemma met_expense_table_id:
  "r \<in> set (met_expense_table fl dt d first_name last_name tbl) \<Longrightarrow> met_disclosure_id r = d"
  by (auto simp: met_expense_table_def Let_def dest: parse_met_expenses_id)

lemma parse_lobbyist_report_ids:
  assumes "parse_lobbyist_report fl dt soup d = (info, acts, mets, ops, adds, cons)"
  shows "lob_disclosure_id info = d"
    and "\<forall>r\<in>set acts. act_disclosure_id r = d"
    and "\<forall>r\<in>set mets. met_disclosure_id r = d"
    and "\<forall>r\<in>set ops. op_disclosure_id r = d"
    and "\<forall>r\<in>set adds. add_disclosure_id r = d"
    and "\<forall>r\<in>set cons. con_disclosure_id r = d"
  using assms
  by (auto simp: parse_lobbyist_report_def Let_def
      dest: activity_table_id met_expense_table_id parse_operating_expenses_id
        parse_additional_expenses_id contributions_block_id)

lemma parse_client_report_ids:
  assumes "parse_client_report fl dt soup d = (info, comps, mets, ops, adds)"
  shows "cli_disclosure_id info = d"
    and "\<forall>r\<in>set comps. comp_disclosure_id r = d"
    and "\<forall>r\<in>set mets. met_disclosure_id r = d"
    and "\<forall>r\<in>set ops. op_disclosure_id r = d"
    and "\<forall>r\<in>set adds. add_disclosure_id r = d"
  using assms
  by (auto simp: parse_client_report_def Let_def compensation_row_def
      dest!: map_filter_SomeD
      dest: parse_met_expenses_id parse_operating_expenses_id parse_additional_expenses_id
      split: option.splits if_splits)

lemma startswith_iff_take: "startswith s p \<longleftrightarrow> take (length p) s = p"
  by (induction s p rule: startswith.induct) auto

lemma contains_iff: "contains sub s \<longleftrightarrow> (\<exists>i\<le>length s. startswith (drop i s) sub)"
proof (induction s)
  case Nil
  show ?case by (cases sub) auto
next
  case (Cons c cs)
  show ?case
  proof
    assume "contains sub (c # cs)"
    then consider "startswith (c # cs) sub" | "contains sub cs" by auto
    then show "\<exists>i\<le>length (c # cs). startswith (drop i (c # cs)) sub"
    proof cases
      case 1
      then have "startswith (drop 0 (c # cs)) sub" by simp
      then show ?thesis by blast
    next
      case 2
      with Cons obtain i where "i \<le> length cs" "startswith (drop i cs) sub" by auto
      then have "Suc i \<le> length (c # cs)" "startswith (drop (Suc i) (c # cs)) sub" by simp_all
      then show ?thesis by blast
    qed
  next
    assume "\<exists>i\<le>length (c # cs). startswith (drop i (c # cs)) sub"
    then obtain i where i: "i \<le> length (c # cs)" "startswith (drop i (c # cs)) sub" by auto
    show "contains sub (c # cs)"
    proof (cases i)
      case 0
      with i show ?thesis by simp
    next
      case (Suc j)
      with i have "j \<le> length cs" "startswith (drop j cs) sub" by simp_all
      with Cons have "contains sub cs" by auto
      then show ?thesis by simp
    qed
  qed
qed

lemma startswith_append_irrelevant:
  "length p \<le> length s \<Longrightarrow> startswith (s @ t) p = startswith s p"
  by (simp add: startswith_iff_take)

lemma no_earlier_sysvalue:
  assumes "\<not> contains ''sysvalue='' (pre @ ''sysvalue'')"
  shows "\<forall>i<length pre. \<not> startswith (drop i (pre @ ''sysvalue='' @ rest)) ''sysvalue=''"
proof (intro allI impI)
  fix i assume i: "i < length pre"
  have "\<not> (\<exists>i\<le>length (pre @ ''sysvalue''). startswith (drop i (pre @ ''sysvalue'')) ''sysvalue='')"
    using assms unfolding contains_iff .
  moreover have "i \<le> length (pre @ ''sysvalue'')" using i by simp
  ultimately have n: "\<not> startswith (drop i (pre @ ''sysvalue'')) ''sysvalue=''" by blast
  have d: "drop i (pre @ ''sysvalue='' @ rest) = drop i (pre @ ''sysvalue'') @ (''='' @ rest)"
    using i by simp
  have "startswith (drop i (pre @ ''sysvalue'') @ (''='' @ rest)) ''sysvalue=''
          = startswith (drop i (pre @ ''sysvalue'')) ''sysvalue=''"
    by (rule startswith_append_irrelevant) (use i in simp)
  with n have "\<not> startswith (drop i (pre @ ''sysvalue'') @ (''='' @ rest)) ''sysvalue=''"
    by blast
  then show "\<not> startswith (drop i (pre @ ''sysvalue='' @ rest)) ''sysvalue=''"
    unfolding d .
qed

lemma derive_disclosure_id_sysvalue:
  assumes "\<not> contains ''sysvalue='' (pre @ ''sysvalue'')" "v \<noteq> []" "CHR 0x0A \<notin> set v"
  shows "derive_disclosure_id (pre @ ''sysvalue='' @ v @ ''.html'') = replace ''%2f'' ''/'' v"
proof -
  have "search_sysvalue (pre @ ''sysvalue='' @ v @ ''.html'')
          = search_sysvalue (''sysvalue='' @ v @ ''.html'')"
    by (rule search_sysvalue_first) (rule no_earlier_sysvalue [OF assms(1)])
  also have "\<dots> = Some v"
    using assms(2,3) by (rule search_sysvalue_here)
  finally show ?thesis
    by (simp add: derive_disclosure_id_def)
qed

lemma derive_disclosure_id_plain:
  "\<not> contains ''sysvalue='' filename \<Longrightarrow> derive_disclosure_id filename = fst (splitext filename)"
  by (simp add: derive_disclosure_id_def search_sysvalue_absent)

lemma parse_date_range_returns: "\<exists>a b. parse_date_range s = Inr (a, b)"
proof (cases "parse_date_range_try s")
  case (Inl e)
  then have "exc_class_of e = ValueError" by (rule parse_date_range_try_error)
  with Inl show ?thesis by (simp add: parse_date_range_def)
next
  case (Inr ab)
  then show ?thesis by (cases ab) (simp add: parse_date_range_def)
qed

lemma loop_body_ids:
  fixes fl :: "string \<Rightarrow> ('f::zero) option" and dt filename soup
  defines "b \<equiv> loop_body fl dt empty_batch (filename, soup)"
    and "d \<equiv> derive_disclosure_id filename"
  shows "\<forall>r\<in>set (disclosure_reports_list b). rep_disclosure_id r = d"
    and "\<forall>r\<in>set (lobbyists_list b). lob_disclosure_id r = d"
    and "\<forall>r\<in>set (clients_list b). cli_disclosure_id r = d"
    and "\<forall>r\<in>set (compensations_list b). comp_disclosure_id r = d"
    and "\<forall>r\<in>set (lobbying_activities_list b). act_disclosure_id r = d"
    and "\<forall>r\<in>set (met_expenses_list b). met_disclosure_id r = d"
    and "\<forall>r\<in>set (operating_expenses_list b). op_disclosure_id r = d"
    and "\<forall>r\<in>set (additional_expenses_list b). add_disclosure_id r = d"
    and "\<forall>r\<in>set (contributions_list b). con_disclosure_id r = d"
proof -
  obtain s e where pdr: "parse_date_range (safe_get_text soup ''span'' ''ContentPlaceHolder1_lblYear'') = Inr (s, e)"
    using parse_date_range_returns by blast
  obtain li la lm lo lad lc where L: "parse_lobbyist_report fl dt soup d = (li, la, lm, lo, lad, lc)"
    by (metis prod_cases6)
  obtain ci cc cm co cad where C: "parse_client_report fl dt soup d = (ci, cc, cm, co, cad)"
    by (metis prod_cases5)
  note Lids = parse_lobbyist_report_ids [OF L]
  note Cids = parse_client_report_ids [OF C]
  have unfold: "b = loop_body_with (\<lambda>soup disclosure_id. Inr (parse_lobbyist_report fl dt soup disclosure_id))
       (\<lambda>soup disclosure_id. Inr (parse_client_report fl dt soup disclosure_id)) empty_batch (filename, soup)"
    by (simp add: b_def loop_body_def)
  show "\<forall>r\<in>set (disclosure_reports_list b). rep_disclosure_id r = d"
    using L C Lids Cids pdr
    by (auto simp: unfold loop_body_with_def Let_def empty_batch_def parsing_error_def d_def
        split: option.splits)
  show "\<forall>r\<in>set (lobbyists_list b). lob_disclosure_id r = d"
    using L C Lids Cids pdr
    by (auto simp: unfold loop_body_with_def Let_def empty_batch_def parsing_error_def d_def
        split: option.splits)
  show "\<forall>r\<in>set (clients_list b). cli_disclosure_id r = d"
    using L C Lids Cids pdr
    by (auto simp: unfold loop_body_with_def Let_def empty_batch_def parsing_error_def d_def
        split: option.splits)
  show "\<forall>r\<in>set (compensations_list b). comp_disclosure_id r = d"
    using L C Lids Cids pdr
    by (auto simp: unfold loop_body_with_def Let_def empty_batch_def parsing_error_def d_def
        split: option.splits)
  show "\<forall>r\<in>set (lobbying_activities_list b). act_disclosure_id r = d"
    using L C Lids Cids pdr
    by (auto simp: unfold loop_body_with_def Let_def empty_batch_def parsing_error_def d_def
        split: option.splits)
  show "\<forall>r\<in>set (met_expenses_list b). met_disclosure_id r = d"
    using L C Lids Cids pdr
    by (auto simp: unfold loop_body_with_def Let_def empty_batch_def parsing_error_def d_def
        split: option.splits)
  show "\<forall>r\<in>set (operating_expenses_list b). op_disclosure_id r = d"
    using L C Lids Cids pdr
    by (auto simp: unfold loop_body_with_def Let_def empty_batch_def parsing_error_def d_def
        split: option.splits)
  show "\<forall>r\<in>set (additional_expenses_list b). add_disclosure_id r = d"
    using L C Lids Cids pdr
    by (auto simp: unfold loop_body_with_def Let_def empty_batch_def parsing_error_def d_def
        split: option.splits)
  show "\<forall>r\<in>set (contributions_list b). con_disclosure_id r = d"
    using L C Lids Cids pdr
    by (auto simp: unfold loop_body_with_def Let_def empty_batch_def parsing_error_def d_def
        split: option.splits)
qed

text \<open>
  C4. The identifier of a document is derived from its file name. Where the file name is
  \<open>pre\<close>, \<open>sysvalue=\<close>, a value \<open>v\<close> and \<open>.html\<close>, with no \<open>sysvalue=\<close> beginning inside \<open>pre\<close>
  and a value that is not empty and has no line feed, the identifier is \<open>v\<close> with every
  \<open>%2f\<close> replaced by a slash. Where the file name has no \<open>sysvalue=\<close>, the identifier is
  the root that \<open>os.path.splitext\<close> gives: the file name without \<open>.html\<close>, for a name
  with no slash that has a character other than a dot before \<open>.html\<close>. Every record that
  the loop adds for the file, of every entity, has this identifier as its
  \<open>disclosure_id\<close>.
\<close>

theorem disclosure_id_derivation:
  fixes fl :: "string \<Rightarrow> ('f::zero) option"
  shows
  "(filename = pre @ ''sysvalue='' @ v @ ''.html'' \<and> \<not> contains ''sysvalue='' (pre @ ''sysvalue'')
      \<and> v \<noteq> [] \<and> CHR 0x0A \<notin> set v
      \<longrightarrow> derive_disclosure_id filename = replace ''%2f'' ''/'' v)
   \<and> (\<not> contains ''sysvalue='' filename
      \<longrightarrow> derive_disclosure_id filename = fst (splitext filename))
   \<and> (\<not> contains ''sysvalue='' filename \<and> filename = base @ ''.html''
        \<and> CHR ''/'' \<notin> set base \<and> (\<exists>c\<in>set base. c \<noteq> CHR ''.'')
      \<longrightarrow> derive_disclosure_id filename = base)
   \<and> set (disclosure_ids (loop_body fl dt empty_batch (filename, soup)))
        \<subseteq> {derive_disclosure_id filename}"
proof -
  have 1: "filename = pre @ ''sysvalue='' @ v @ ''.html'' \<and> \<not> contains ''sysvalue='' (pre @ ''sysvalue'')
      \<and> v \<noteq> [] \<and> CHR 0x0A \<notin> set v
      \<longrightarrow> derive_disclosure_id filename = replace ''%2f'' ''/'' v"
    using derive_disclosure_id_sysvalue by blast
  have 2: "\<not> contains ''sysvalue='' filename
      \<longrightarrow> derive_disclosure_id filename = fst (splitext filename)"
    by (simp add: derive_disclosure_id_plain)
  have 3: "\<not> contains ''sysvalue='' filename \<and> filename = base @ ''.html''
        \<and> CHR ''/'' \<notin> set base \<and> (\<exists>c\<in>set base. c \<noteq> CHR ''.'')
      \<longrightarrow> derive_disclosure_id filename = base"
  proof (intro impI, elim conjE)
    assume a: "\<not> contains ''sysvalue='' filename" "filename = base @ ''.html''"
      "CHR ''/'' \<notin> set base" "\<exists>c\<in>set base. c \<noteq> CHR ''.''"
    from a(3,4) have "splitext (base @ ''.html'') = (base, ''.html'')" by (rule splitext_html)
    with a(1,2) show "derive_disclosure_id filename = base"
      by (simp add: derive_disclosure_id_plain)
  qed
  have 4: "set (disclosure_ids (loop_body fl dt empty_batch (filename, soup)))
        \<subseteq> {derive_disclosure_id filename}"
    using loop_body_ids [of fl dt filename soup]
    by (auto simp: disclosure_ids_def)
  from 1 2 3 4 show ?thesis
    by (intro conjI)
qed

lemma constant_list:
  "length xs = n \<Longrightarrow> set xs \<subseteq> {a} \<Longrightarrow> xs = replicate n a"
  by (induction xs arbitrary: n) auto

theorem disclosure_id_derivation_witness:
  "''site_CompleteDisclosure.aspx_sysvalue=hvS0%2fw46oE=.html''
       = ''site_CompleteDisclosure.aspx_'' @ ''sysvalue='' @ ''hvS0%2fw46oE='' @ ''.html''
   \<and> \<not> contains ''sysvalue='' (''site_CompleteDisclosure.aspx_'' @ ''sysvalue'')
   \<and> ''hvS0%2fw46oE='' \<noteq> [] \<and> CHR 0x0A \<notin> set ''hvS0%2fw46oE=''
   \<and> derive_disclosure_id ''site_CompleteDisclosure.aspx_sysvalue=hvS0%2fw46oE=.html'' = ''hvS0/w46oE=''
   \<and> \<not> contains ''sysvalue='' ''report17.html'' \<and> ''report17.html'' = ''report17'' @ ''.html''
   \<and> CHR ''/'' \<notin> set ''report17'' \<and> (\<exists>c\<in>set ''report17''. c \<noteq> CHR ''.'')
   \<and> derive_disclosure_id ''report17.html'' = ''report17''
   \<and> fst (splitext ''report17.html'') = ''report17''
   \<and> disclosure_ids (loop_body sample_float sample_to_datetime empty_batch
        (''site_CompleteDisclosure.aspx_sysvalue=hvS0%2fw46oE=.html'', lobbyist_page))
       = replicate 3 ''hvS0/w46oE=''
   \<and> disclosure_ids (loop_body sample_float sample_to_datetime empty_batch
        (''report17.html'', client_page))
       = replicate 4 ''report17''"
proof -
  let ?f = "''site_CompleteDisclosure.aspx_sysvalue=hvS0%2fw46oE=.html''"
  let ?L = "loop_body sample_float sample_to_datetime empty_batch (?f, lobbyist_page)"
  let ?C = "loop_body sample_float sample_to_datetime empty_batch (''report17.html'', client_page)"
  have a1: "?f = ''site_CompleteDisclosure.aspx_'' @ ''sysvalue='' @ ''hvS0%2fw46oE='' @ ''.html''"
    by simp
  have a2: "\<not> contains ''sysvalue='' (''site_CompleteDisclosure.aspx_'' @ ''sysvalue'')"
    by code_simp
  have a3: "''hvS0%2fw46oE='' \<noteq> []" by simp
  have a4: "CHR 0x0A \<notin> set ''hvS0%2fw46oE=''" by simp
  have b1: "\<not> contains ''sysvalue='' ''report17.html''" by code_simp
  have b2: "''report17.html'' = ''report17'' @ ''.html''" by simp
  have b3: "CHR ''/'' \<notin> set ''report17''" by simp
  have b4: "\<exists>c\<in>set ''report17''. c \<noteq> CHR ''.''" by simp
  note T1 = disclosure_id_derivation [of ?f "''site_CompleteDisclosure.aspx_''" "''hvS0%2fw46oE=''"
      "[]" sample_float sample_to_datetime lobbyist_page]
  note T2 = disclosure_id_derivation [of "''report17.html''" "[]" "[]" "''report17''"
      sample_float sample_to_datetime client_page]
  have r: "replace ''%2f'' ''/'' ''hvS0%2fw46oE='' = ''hvS0/w46oE=''"
    by code_simp
  from T1 a1 a2 a3 a4 have "derive_disclosure_id ?f = replace ''%2f'' ''/'' ''hvS0%2fw46oE=''"
    by blast
  with r have d1: "derive_disclosure_id ?f = ''hvS0/w46oE=''" by (simp only:)
  from T2 b1 b2 b3 b4 have d2: "derive_disclosure_id ''report17.html'' = ''report17''" by blast
  from T2 b1 have "derive_disclosure_id ''report17.html'' = fst (splitext ''report17.html'')"
    by blast
  with d2 have d3: "fst (splitext ''report17.html'') = ''report17''" by (simp only:)
  have nL: "length (disclosure_ids ?L) = 3" by code_simp
  from T1 have "set (disclosure_ids ?L) \<subseteq> {derive_disclosure_id ?f}" by blast
  then have "set (disclosure_ids ?L) \<subseteq> {''hvS0/w46oE=''}" by (simp only: d1)
  with nL have l: "disclosure_ids ?L = replicate 3 ''hvS0/w46oE=''" by (rule constant_list)
  have nC: "length (disclosure_ids ?C) = 4" by code_simp
  from T2 have "set (disclosure_ids ?C) \<subseteq> {derive_disclosure_id ''report17.html''}" by blast
  then have "set (disclosure_ids ?C) \<subseteq> {''report17''}" by (simp only: d2)
  with nC have c: "disclosure_ids ?C = replicate 4 ''report17''" by (rule constant_list)
  show ?thesis
    using a1 a2 a3 a4 d1 b1 b2 b3 b4 d2 d3 l c by (intro conjI) assumption+
qed

lemma amount_of_clean_currency: "clean_currency fl (Some s) = Inr (amount_of fl s)"
  by (simp add: amount_of_def clean_currency_returns)

section \<open>Properties of the table of meals, entertainment and travel\<close>

text \<open>
  C3, as stated, fails: the name that the caller supplies can be the empty string, as
  \<open>parse_lobbyist_report\<close> supplies it for a filer with no first and last name and no name
  label before the table; the record of a row of five cells then has the name \<open>N/A\<close>.
\<close>

theorem met_name_counterexample:
  "map (\<lambda>row. length (find_all row (is_tag ''td''))) (tl (find_all met_table5 (is_tag ''tr''))) = [5]
   \<and> map met_lobbyist_name
        (parse_met_expenses sample_float sample_to_datetime (Some met_table5) ''d'' (Some []))
       = [''N/A'']"
  by code_simp

text \<open>
  C3, amended. For every row of a table of meals, entertainment and travel that has no
  \<open>Total amount\<close> in its text: with exactly six cells the record has the text of cell 1 as
  \<open>lobbyist_name\<close> and \<open>event_type\<close>, \<open>payee_vendor\<close>, \<open>attendees\<close>, \<open>amount\<close> from cells 2 to 5;
  with exactly five cells \<open>lobbyist_name\<close> is the name that the caller supplies when it
  supplies one that is not empty, and \<open>N/A\<close> otherwise, and the same fields come from
  cells 1 to 4. The date is \<open>format_date\<close> of cell 0 and the amount is what
  \<open>clean_currency\<close> returns on its cell. The records of a table without the placeholder are
  the records of its rows after the first.
\<close>

theorem met_expense_row_columns:
  fixes fl :: "string \<Rightarrow> ('f::zero) option"
  assumes "\<not> contains ''Total amount'' (get_text row)"
    and "cols = find_all row (is_tag ''td'')"
  shows
  "(length cols = 6 \<longrightarrow>
      met_expense_row fl dt d amb row =
        Some \<lparr> met_disclosure_id = d,
               met_lobbyist_name = cell cols 1,
               met_date = format_date dt (Some (cell cols 0)),
               met_event_type = cell cols 2,
               met_payee_vendor = cell cols 3,
               met_attendees = cell cols 4,
               met_amount = amount_of fl (cell cols 5) \<rparr>
      \<and> clean_currency fl (Some (cell cols 5)) = Inr (amount_of fl (cell cols 5)))
   \<and> (length cols = 5 \<longrightarrow>
      met_expense_row fl dt d amb row =
        Some \<lparr> met_disclosure_id = d,
               met_lobbyist_name =
                 (case amb of None \<Rightarrow> ''N/A'' | Some name \<Rightarrow> if name = [] then ''N/A'' else name),
               met_date = format_date dt (Some (cell cols 0)),
               met_event_type = cell cols 1,
               met_payee_vendor = cell cols 2,
               met_attendees = cell cols 3,
               met_amount = amount_of fl (cell cols 4) \<rparr>
      \<and> clean_currency fl (Some (cell cols 4)) = Inr (amount_of fl (cell cols 4)))
   \<and> (\<not> contains ''No meals, travel, or entertainment expenses'' (get_text t) \<longrightarrow>
      parse_met_expenses fl dt (Some t) d amb =
        List.map_filter (met_expense_row fl dt d amb) (tl (find_all t (is_tag ''tr''))))"
proof -
  have "tl rows = []" if "\<not> 1 < length rows" for rows :: "node list"
    using that by (cases rows) auto
  then have "\<not> contains ''No meals, travel, or entertainment expenses'' (get_text t) \<longrightarrow>
      parse_met_expenses fl dt (Some t) d amb =
        List.map_filter (met_expense_row fl dt d amb) (tl (find_all t (is_tag ''tr'')))"
    by (simp add: parse_met_expenses_def Let_def)
  with assms show ?thesis
    by (simp add: met_expense_row_def Let_def or_default_def amount_of_clean_currency
        split: option.splits)
qed

theorem met_expense_row_columns_witness:
  "\<not> contains ''Total amount'' (get_text met_row6)
   \<and> length (find_all met_row6 (is_tag ''td'')) = 6
   \<and> met_expense_row sample_float sample_to_datetime ''d'' (Some ''Jane Doe'') met_row6 =
        Some \<lparr> met_disclosure_id = ''d'', met_lobbyist_name = ''John Roe'',
               met_date = Some ''2024-03-05'', met_event_type = ''Dinner'',
               met_payee_vendor = ''Grill'', met_attendees = ''Board'', met_amount = 80 \<rparr>
   \<and> clean_currency sample_float (Some ''$80.00'') = Inr 80
   \<and> \<not> contains ''Total amount'' (get_text met_row5)
   \<and> length (find_all met_row5 (is_tag ''td'')) = 5
   \<and> met_expense_row sample_float sample_to_datetime ''d'' (Some ''Jane Doe'') met_row5 =
        Some \<lparr> met_disclosure_id = ''d'', met_lobbyist_name = ''Jane Doe'',
               met_date = Some ''2024-03-04'', met_event_type = ''Lunch'',
               met_payee_vendor = ''Cafe'', met_attendees = ''Staff'', met_amount = 451 / 10 \<rparr>
   \<and> clean_currency sample_float (Some ''$45.10'') = Inr (451 / 10)
   \<and> \<not> contains ''No meals, travel, or entertainment expenses'' (get_text met_table5)
   \<and> parse_met_expenses sample_float sample_to_datetime (Some met_table5) ''d'' (Some ''Jane Doe'') =
        [\<lparr> met_disclosure_id = ''d'', met_lobbyist_name = ''Jane Doe'',
            met_date = Some ''2024-03-04'', met_event_type = ''Lunch'',
            met_payee_vendor = ''Cafe'', met_attendees = ''Staff'', met_amount = 451 / 10 \<rparr>]"
proof -
  let ?c6 = "find_all met_row6 (is_tag ''td'')"
  let ?c5 = "find_all met_row5 (is_tag ''td'')"
  have a6: "\<not> contains ''Total amount'' (get_text met_row6)" by code_simp
  have n6: "length ?c6 = 6" by code_simp
  have a5: "\<not> contains ''Total amount'' (get_text met_row5)" by code_simp
  have n5: "length ?c5 = 5" by code_simp
  have c6: "cell ?c6 0 = ''03/05/2024''" "cell ?c6 1 = ''John Roe''" "cell ?c6 2 = ''Dinner''"
    "cell ?c6 3 = ''Grill''" "cell ?c6 4 = ''Board''" "cell ?c6 5 = ''$80.00''"
    by code_simp+
  have c5: "cell ?c5 0 = ''03/04/2024''" "cell ?c5 1 = ''Lunch''" "cell ?c5 2 = ''Cafe''"
    "cell ?c5 3 = ''Staff''" "cell ?c5 4 = ''$45.10''"
    by code_simp+
  have v: "format_date sample_to_datetime (Some ''03/05/2024'') = Some ''2024-03-05''"
    "format_date sample_to_datetime (Some ''03/04/2024'') = Some ''2024-03-04''"
    "amount_of sample_float ''$80.00'' = 80" "amount_of sample_float ''$45.10'' = 451 / 10"
    by code_simp+
  from met_expense_row_columns [OF a6 refl, of sample_float sample_to_datetime "''d''" "Some ''Jane Doe''" met_table5] n6
  have r6: "met_expense_row sample_float sample_to_datetime ''d'' (Some ''Jane Doe'') met_row6 =
        Some \<lparr> met_disclosure_id = ''d'', met_lobbyist_name = ''John Roe'',
               met_date = Some ''2024-03-05'', met_event_type = ''Dinner'',
               met_payee_vendor = ''Grill'', met_attendees = ''Board'', met_amount = 80 \<rparr>"
    "clean_currency sample_float (Some ''$80.00'') = Inr 80"
    by (simp_all only: c6 v simp_thms)
  from met_expense_row_columns [OF a5 refl, of sample_float sample_to_datetime "''d''" "Some ''Jane Doe''" met_table5] n5
  have r5: "met_expense_row sample_float sample_to_datetime ''d'' (Some ''Jane Doe'') met_row5 =
        Some \<lparr> met_disclosure_id = ''d'', met_lobbyist_name = ''Jane Doe'',
               met_date = Some ''2024-03-04'', met_event_type = ''Lunch'',
               met_payee_vendor = ''Cafe'', met_attendees = ''Staff'', met_amount = 451 / 10 \<rparr>"
    "clean_currency sample_float (Some ''$45.10'') = Inr (451 / 10)"
    by (simp_all only: c5 v simp_thms option.case list.simps if_False)
  have p: "\<not> contains ''No meals, travel, or entertainment expenses'' (get_text met_table5)"
    by code_simp
  have rows: "tl (find_all met_table5 (is_tag ''tr'')) = [met_row5]"
    by code_simp
  from met_expense_row_columns [OF a5 refl, of sample_float sample_to_datetime "''d''" "Some ''Jane Doe''" met_table5] p
  have "parse_met_expenses sample_float sample_to_datetime (Some met_table5) ''d'' (Some ''Jane Doe'') =
        List.map_filter (met_expense_row sample_float sample_to_datetime ''d'' (Some ''Jane Doe''))
          (tl (find_all met_table5 (is_tag ''tr'')))"
    by blast
  then have t: "parse_met_expenses sample_float sample_to_datetime (Some met_table5) ''d'' (Some ''Jane Doe'') =
        [\<lparr> met_disclosure_id = ''d'', met_lobbyist_name = ''Jane Doe'',
            met_date = Some ''2024-03-04'', met_event_type = ''Lunch'',
            met_payee_vendor = ''Cafe'', met_attendees = ''Staff'', met_amount = 451 / 10 \<rparr>]"
    by (simp add: rows r5)
  show ?thesis
    using a6 n6 r6 a5 n5 r5 p t by (intro conjI) assumption+
qed

lemma tl_short: "\<not> 1 < length rows \<Longrightarrow> tl rows = []"
  by (cases rows) auto







section \<open>Properties of the loop over the documents\<close>



section \<open>Properties of the primary records\<close>

lemma contains_Lobbyist_report_type:
  "contains ''Lobbyist'' (if contains ''Lobbyist'' t then ''Lobbyist'' else ''Client'')
     \<longleftrightarrow> contains ''Lobbyist'' t"
proof -
  have "contains ''Lobbyist'' ''Lobbyist''" by code_simp
  moreover have "\<not> contains ''Lobbyist'' ''Client''" by code_simp
  ultimately show ?thesis by (simp del: contains.simps)
qed

lemma loop_body_lobbyists:
  fixes fl :: "string \<Rightarrow> ('f::zero) option" and b :: "'f batch"
  assumes "endswith (fst file) ''.html''"
  shows "lobbyists_list (loop_body fl dt b file) =
           lobbyists_list b
           @ (if is_lobbyist_document file
              then [fst (parse_lobbyist_report fl dt (snd file) (derive_disclosure_id (fst file)))]
              else [])"
proof -
  obtain s e where p: "parse_date_range
      (safe_get_text (snd file) ''span'' ''ContentPlaceHolder1_lblYear'') = Inr (s, e)"
    using parse_date_range_returns by blast
  show ?thesis
    using assms
    by (auto simp: loop_body_def loop_body_with_def Let_def is_lobbyist_document_def p
        contains_Lobbyist_report_type
        simp del: contains.simps split: option.splits prod.splits)
qed

lemma loop_body_clients:
  fixes fl :: "string \<Rightarrow> ('f::zero) option" and b :: "'f batch"
  assumes "endswith (fst file) ''.html''"
  shows "clients_list (loop_body fl dt b file) =
           clients_list b
           @ (if is_client_document file
              then [fst (parse_client_report fl dt (snd file) (derive_disclosure_id (fst file)))]
              else [])"
proof -
  obtain s e where p: "parse_date_range
      (safe_get_text (snd file) ''span'' ''ContentPlaceHolder1_lblYear'') = Inr (s, e)"
    using parse_date_range_returns by blast
  show ?thesis
    using assms
    by (auto simp: loop_body_def loop_body_with_def Let_def is_client_document_def p
        contains_Lobbyist_report_type
        simp del: contains.simps split: option.splits prod.splits)
qed

lemma foldl_loop_body_lobbyists:
  fixes fl :: "string \<Rightarrow> ('f::zero) option" and b :: "'f batch"
  assumes "\<forall>file \<in> set files. endswith (fst file) ''.html''"
  shows "lobbyists_list (foldl (loop_body fl dt) b files) =
           lobbyists_list b
           @ map (\<lambda>file. fst (parse_lobbyist_report fl dt (snd file) (derive_disclosure_id (fst file))))
               (filter is_lobbyist_document files)"
  using assms
proof (induction files arbitrary: b)
  case Nil
  show ?case by simp
next
  case (Cons doc files)
  then show ?case by (simp add: loop_body_lobbyists)
qed

lemma foldl_loop_body_clients:
  fixes fl :: "string \<Rightarrow> ('f::zero) option" and b :: "'f batch"
  assumes "\<forall>file \<in> set files. endswith (fst file) ''.html''"
  shows "clients_list (foldl (loop_body fl dt) b files) =
           clients_list b
           @ map (\<lambda>file. fst (parse_client_report fl dt (snd file) (derive_disclosure_id (fst file))))
               (filter is_client_document files)"
  using assms
proof (induction files arbitrary: b)
  case Nil
  show ?case by simp
next
  case (Cons doc files)
  then show ?case by (simp add: loop_body_clients)
qed

lemma filter_html_lobbyist:
  "filter is_lobbyist_document (filter (\<lambda>file. endswith (fst file) ''.html'') listing)
     = filter is_lobbyist_document listing"
  by (induction listing) (auto simp: is_lobbyist_document_def)

lemma filter_html_client:
  "filter is_client_document (filter (\<lambda>file. endswith (fst file) ''.html'') listing)
     = filter is_client_document listing"
  by (induction listing) (auto simp: is_client_document_def)

lemma run_loop_lobbyists:
  fixes fl :: "string \<Rightarrow> ('f::zero) option"
  shows "lobbyists_list (run_loop fl dt listing) =
           map (\<lambda>file. fst (parse_lobbyist_report fl dt (snd file) (derive_disclosure_id (fst file))))
             (filter is_lobbyist_document listing)"
proof -
  have "\<forall>file \<in> set (filter (\<lambda>file. endswith (fst file) ''.html'') listing).
          endswith (fst file) ''.html''"
    by simp
  from foldl_loop_body_lobbyists [OF this, of fl dt empty_batch]
  show ?thesis
    unfolding run_loop_def Let_def filter_html_lobbyist by (simp add: empty_batch_def)
qed

lemma run_loop_clients:
  fixes fl :: "string \<Rightarrow> ('f::zero) option"
  shows "clients_list (run_loop fl dt listing) =
           map (\<lambda>file. fst (parse_client_report fl dt (snd file) (derive_disclosure_id (fst file))))
             (filter is_client_document listing)"
proof -
  have "\<forall>file \<in> set (filter (\<lambda>file. endswith (fst file) ''.html'') listing).
          endswith (fst file) ''.html''"
    by simp
  from foldl_loop_body_clients [OF this, of fl dt empty_batch]
  show ?thesis
    unfolding run_loop_def Let_def filter_html_client by (simp add: empty_batch_def)
qed

lemma find_map_key:
  assumes "\<And>x. key (f x) = g x"
  shows "find (\<lambda>r. key r = k) (map f xs) = map_option f (find (\<lambda>x. g x = k) xs)"
  using assms by (induction xs) auto

lemma find_filter:
  "find P (filter Q xs) = find (\<lambda>x. Q x \<and> P x) xs"
  by (induction xs) auto

lemma data_frames_of_lobbyists:
  "df_lobbyists (data_frames_of b) = drop_duplicates lob_disclosure_id (lobbyists_list b)"
  by (simp add: data_frames_of_def drop_duplicates_def)

lemma data_frames_of_clients:
  "df_clients (data_frames_of b) = drop_duplicates cli_disclosure_id (clients_list b)"
  by (simp add: data_frames_of_def drop_duplicates_def)

lemma parse_lobbyist_report_info_id:
  "lob_disclosure_id (fst (parse_lobbyist_report fl dt soup d)) = d"
  by (cases "parse_lobbyist_report fl dt soup d") (simp add: parse_lobbyist_report_ids(1))

lemma parse_client_report_info_id:
  "cli_disclosure_id (fst (parse_client_report fl dt soup d)) = d"
  by (cases "parse_client_report fl dt soup d") (simp add: parse_client_report_ids(1))

lemma first_lobbyist_record:
  fixes fl :: "string \<Rightarrow> ('f::zero) option"
  shows "find (\<lambda>r. lob_disclosure_id r = i) (df_lobbyists (main fl dt listing))
       = map_option
           (\<lambda>file. fst (parse_lobbyist_report fl dt (snd file) (derive_disclosure_id (fst file))))
           (find (\<lambda>file. is_lobbyist_document file \<and> derive_disclosure_id (fst file) = i) listing)"
proof -
  let ?f = "\<lambda>file. fst (parse_lobbyist_report fl dt (snd file) (derive_disclosure_id (fst file)))"
  have "find (\<lambda>r. lob_disclosure_id r = i) (df_lobbyists (main fl dt listing))
          = find (\<lambda>r. lob_disclosure_id r = i) (map ?f (filter is_lobbyist_document listing))"
    by (simp add: main_def data_frames_of_lobbyists drop_duplicates_def drop_duplicates_from_find
        run_loop_lobbyists)
  also have "\<dots> = map_option ?f
      (find (\<lambda>file. derive_disclosure_id (fst file) = i) (filter is_lobbyist_document listing))"
    by (rule find_map_key) (rule parse_lobbyist_report_info_id)
  also have "\<dots> = map_option ?f
      (find (\<lambda>file. is_lobbyist_document file \<and> derive_disclosure_id (fst file) = i) listing)"
    by (simp only: find_filter)
  finally show ?thesis .
qed

lemma first_client_record:
  fixes fl :: "string \<Rightarrow> ('f::zero) option"
  shows "find (\<lambda>r. cli_disclosure_id r = i) (df_clients (main fl dt listing))
       = map_option
           (\<lambda>file. fst (parse_client_report fl dt (snd file) (derive_disclosure_id (fst file))))
           (find (\<lambda>file. is_client_document file \<and> derive_disclosure_id (fst file) = i) listing)"
proof -
  let ?f = "\<lambda>file. fst (parse_client_report fl dt (snd file) (derive_disclosure_id (fst file)))"
  have "find (\<lambda>r. cli_disclosure_id r = i) (df_clients (main fl dt listing))
          = find (\<lambda>r. cli_disclosure_id r = i) (map ?f (filter is_client_document listing))"
    by (simp add: main_def data_frames_of_clients drop_duplicates_def drop_duplicates_from_find
        run_loop_clients)
  also have "\<dots> = map_option ?f
      (find (\<lambda>file. derive_disclosure_id (fst file) = i) (filter is_client_document listing))"
    by (rule find_map_key) (rule parse_client_report_info_id)
  also have "\<dots> = map_option ?f
      (find (\<lambda>file. is_client_document file \<and> derive_disclosure_id (fst file) = i) listing)"
    by (simp only: find_filter)
  finally show ?thesis .
qed

lemma drop_duplicates_from_sublist:
  "set (drop_duplicates_from seen key xs) \<subseteq> set xs"
  by (induction xs arbitrary: seen) auto

text \<open>
  C9. In the data frames of a batch, the lobbyist records have pairwise different
  \<open>disclosure_id\<close>s, and so have the client records; the identifiers of the lobbyist records
  are those of the lobbyist reports of the listing, and for every identifier \<open>i\<close> the record
  kept is the record of the first lobbyist report of the listing, in the order in which the
  loop reads it, whose file name gives \<open>i\<close>: the records of later reports with the same
  identifier are dropped. The same holds for the client records and the client reports.
\<close>

theorem primary_records_first_seen:
  fixes fl :: "string \<Rightarrow> ('f::zero) option"
  shows
  "distinct (map lob_disclosure_id (df_lobbyists (main fl dt listing)))
   \<and> distinct (map cli_disclosure_id (df_clients (main fl dt listing)))
   \<and> lob_disclosure_id ` set (df_lobbyists (main fl dt listing))
       = (\<lambda>file. derive_disclosure_id (fst file)) ` {file \<in> set listing. is_lobbyist_document file}
   \<and> cli_disclosure_id ` set (df_clients (main fl dt listing))
       = (\<lambda>file. derive_disclosure_id (fst file)) ` {file \<in> set listing. is_client_document file}
   \<and> find (\<lambda>r. lob_disclosure_id r = i) (df_lobbyists (main fl dt listing))
       = map_option
           (\<lambda>file. fst (parse_lobbyist_report fl dt (snd file) (derive_disclosure_id (fst file))))
           (find (\<lambda>file. is_lobbyist_document file \<and> derive_disclosure_id (fst file) = i) listing)
   \<and> find (\<lambda>r. cli_disclosure_id r = i) (df_clients (main fl dt listing))
       = map_option
           (\<lambda>file. fst (parse_client_report fl dt (snd file) (derive_disclosure_id (fst file))))
           (find (\<lambda>file. is_client_document file \<and> derive_disclosure_id (fst file) = i) listing)"
proof -
  have d1: "distinct (map lob_disclosure_id (df_lobbyists (main fl dt listing)))"
    by (simp add: main_def data_frames_of_lobbyists drop_duplicates_def drop_duplicates_from_distinct)
  have d2: "distinct (map cli_disclosure_id (df_clients (main fl dt listing)))"
    by (simp add: main_def data_frames_of_clients drop_duplicates_def drop_duplicates_from_distinct)
  have k1: "lob_disclosure_id ` set (df_lobbyists (main fl dt listing))
       = (\<lambda>file. derive_disclosure_id (fst file)) ` {file \<in> set listing. is_lobbyist_document file}"
    by (simp add: main_def data_frames_of_lobbyists drop_duplicates_def drop_duplicates_from_keys
        run_loop_lobbyists image_image parse_lobbyist_report_info_id)
  have k2: "cli_disclosure_id ` set (df_clients (main fl dt listing))
       = (\<lambda>file. derive_disclosure_id (fst file)) ` {file \<in> set listing. is_client_document file}"
    by (simp add: main_def data_frames_of_clients drop_duplicates_def drop_duplicates_from_keys
        run_loop_clients image_image parse_client_report_info_id)
  show ?thesis
    by (intro conjI) (rule d1 d2 k1 k2 first_lobbyist_record first_client_record)+
qed

theorem primary_records_first_seen_witness:
  "map (\<lambda>file. (is_lobbyist_document file, derive_disclosure_id (fst file))) two_copies
     = [(True, ''X1''), (True, ''X1'')]
   \<and> map lob_employer_name
        (lobbyists_list (run_loop sample_float sample_to_datetime two_copies :: rat batch))
     = [''First Seen LLC'', ''Second Seen LLC'']
   \<and> find (\<lambda>r. lob_disclosure_id r = ''X1'')
        (df_lobbyists (main sample_float sample_to_datetime two_copies :: rat data_frames))
     = Some \<lparr> lob_disclosure_id = ''X1'', lob_first_name = ''First Seen LLC'', lob_last_name = [],
              lob_employer_name = ''First Seen LLC'', lob_is_incidental = False \<rparr>
   \<and> df_lobbyists (main sample_float sample_to_datetime two_copies :: rat data_frames)
     = [\<lparr> lob_disclosure_id = ''X1'', lob_first_name = ''First Seen LLC'', lob_last_name = [],
          lob_employer_name = ''First Seen LLC'', lob_is_incidental = False \<rparr>]"
proof -
  have a: "map (\<lambda>file. (is_lobbyist_document file, derive_disclosure_id (fst file))) two_copies
     = [(True, ''X1''), (True, ''X1'')]"
    by code_simp
  have b: "map lob_employer_name
        (lobbyists_list (run_loop sample_float sample_to_datetime two_copies :: rat batch))
     = [''First Seen LLC'', ''Second Seen LLC'']"
    by code_simp
  have e: "map_option
           (\<lambda>file. fst (parse_lobbyist_report sample_float sample_to_datetime (snd file)
                           (derive_disclosure_id (fst file)) :: rat lobbyist_bundle))
           (find (\<lambda>file. is_lobbyist_document file \<and> derive_disclosure_id (fst file) = ''X1'')
              two_copies)
     = Some \<lparr> lob_disclosure_id = ''X1'', lob_first_name = ''First Seen LLC'', lob_last_name = [],
              lob_employer_name = ''First Seen LLC'', lob_is_incidental = False \<rparr>"
    by code_simp
  from primary_records_first_seen [of sample_float sample_to_datetime two_copies "''X1''"]
  have "find (\<lambda>r. lob_disclosure_id r = ''X1'')
        (df_lobbyists (main sample_float sample_to_datetime two_copies :: rat data_frames))
     = map_option
           (\<lambda>file. fst (parse_lobbyist_report sample_float sample_to_datetime (snd file)
                           (derive_disclosure_id (fst file)) :: rat lobbyist_bundle))
           (find (\<lambda>file. is_lobbyist_document file \<and> derive_disclosure_id (fst file) = ''X1'')
              two_copies)"
    by (elim conjE)
  then have c: "find (\<lambda>r. lob_disclosure_id r = ''X1'')
        (df_lobbyists (main sample_float sample_to_datetime two_copies :: rat data_frames))
     = Some \<lparr> lob_disclosure_id = ''X1'', lob_first_name = ''First Seen LLC'', lob_last_name = [],
              lob_employer_name = ''First Seen LLC'', lob_is_incidental = False \<rparr>"
    by (simp only: e)
  have d: "df_lobbyists (main sample_float sample_to_datetime two_copies :: rat data_frames)
     = [\<lparr> lob_disclosure_id = ''X1'', lob_first_name = ''First Seen LLC'', lob_last_name = [],
          lob_employer_name = ''First Seen LLC'', lob_is_incidental = False \<rparr>]"
    by code_simp
  show ?thesis
    using a b c d by (intro conjI) assumption+
qed

section \<open>Properties of the placeholder tables\<close>

text \<open>
  C7, as stated, fails for the tables of operating expenses: \<open>parse_operating_expenses\<close>
  reads the first table of the document only. Here the first table has the placeholder
  and the second, which has none, has a row of data; no record is returned.
\<close>

theorem operating_tables_counterexample:
  "find_all two_operating_page (\<lambda>n. is_tag ''table'' n \<and> id_contains ''grdvOperatingExpenses'' n)
     = [operating_table_none, operating_table_rent]
   \<and> \<not> contains ''No operating expenses were filed'' (get_text operating_table_rent)
   \<and> List.map_filter (operating_expense_row sample_float sample_to_datetime ''d'')
        (tl (find_all operating_table_rent (is_tag ''tr'')))
       = [\<lparr> op_disclosure_id = ''d'', op_date = Some ''2024-01-15'', op_recipient = ''Landlord'',
            op_type_of_expense = ''Rent'', op_amount = 900 \<rparr>]
   \<and> parse_operating_expenses sample_float sample_to_datetime two_operating_page ''d'' = []"
  by code_simp

text \<open>
  C7, amended. A table that is absent, or whose text has the placeholder of its kind, gives
  no record, whatever its rows; a table without the placeholder gives the records of its
  rows after the first. All the tables of additional expenses of a document are read, each
  checked for the placeholder by itself, and their records are concatenated; so are all
  the tables of meals, entertainment and travel of a lobbyist report, each read by
  \<open>parse_met_expenses\<close>. Of the tables of operating expenses and of contributions, and of
  the tables of meals, entertainment and travel of a client report, only the first of the
  document is read.
\<close>

theorem placeholder_tables:
  fixes fl :: "string \<Rightarrow> ('f::zero) option"
  shows
  "parse_met_expenses fl dt table d amb =
     (case table of
        None \<Rightarrow> []
      | Some t \<Rightarrow>
          if contains ''No meals, travel, or entertainment expenses'' (get_text t) then []
          else List.map_filter (met_expense_row fl dt d amb) (tl (find_all t (is_tag ''tr''))))
   \<and> parse_additional_expenses fl dt soup d =
       concat (map (\<lambda>t. if contains ''No additional expenses were filed'' (get_text t) then []
                         else List.map_filter (additional_expense_row fl dt d)
                                (tl (find_all t (is_tag ''tr''))))
         (find_all soup (\<lambda>n. is_tag ''table'' n \<and> id_contains ''grdvAdditionalExpenses'' n)))
   \<and> fst (snd (snd (parse_lobbyist_report fl dt soup d))) =
       concat (map (met_expense_table fl dt d
                      (safe_get_text soup ''span''
                         ''ContentPlaceHolder1_LRegistrationInfoReview1_lblLobbyistFirstName'')
                      (safe_get_text soup ''span''
                         ''ContentPlaceHolder1_LRegistrationInfoReview1_lblLobbyistLastName''))
         (find_all_placed soup (\<lambda>n. is_tag ''table'' n \<and> id_contains ''grdvMETExpenses'' n)))
   \<and> (\<exists>name. met_expense_table fl dt d first_name last_name tbl =
                parse_met_expenses fl dt (Some (fst (snd tbl))) d (Some name))
   \<and> parse_operating_expenses fl dt soup d =
       (case find_first soup (\<lambda>n. is_tag ''table'' n \<and> id_contains ''grdvOperatingExpenses'' n) of
          None \<Rightarrow> []
        | Some t \<Rightarrow>
            if contains ''No operating expenses were filed'' (get_text t) then []
            else List.map_filter (operating_expense_row fl dt d) (tl (find_all t (is_tag ''tr''))))
   \<and> contributions_block fl dt soup d =
       (case find_first soup (\<lambda>n. is_tag ''table'' n \<and> id_contains ''grdvCampaignContribution'' n) of
          None \<Rightarrow> []
        | Some t \<Rightarrow>
            if contains ''No campaign contributions were filed'' (get_text t) then []
            else List.map_filter (contribution_row fl dt d) (tl (find_all t (is_tag ''tr''))))
   \<and> fst (snd (snd (parse_client_report fl dt soup d))) =
       parse_met_expenses fl dt
         (find_first soup (\<lambda>n. is_tag ''table'' n \<and> id_contains ''grdvMETExpenses'' n)) d None"
proof (intro conjI)
  show "parse_met_expenses fl dt table d amb =
     (case table of
        None \<Rightarrow> []
      | Some t \<Rightarrow>
          if contains ''No meals, travel, or entertainment expenses'' (get_text t) then []
          else List.map_filter (met_expense_row fl dt d amb) (tl (find_all t (is_tag ''tr''))))"
    by (simp add: parse_met_expenses_def Let_def tl_short split: option.splits)
  show "parse_additional_expenses fl dt soup d =
       concat (map (\<lambda>t. if contains ''No additional expenses were filed'' (get_text t) then []
                         else List.map_filter (additional_expense_row fl dt d)
                                (tl (find_all t (is_tag ''tr''))))
         (find_all soup (\<lambda>n. is_tag ''table'' n \<and> id_contains ''grdvAdditionalExpenses'' n)))"
    by (simp add: parse_additional_expenses_def additional_expense_table_def [abs_def])
  show "fst (snd (snd (parse_lobbyist_report fl dt soup d))) =
       concat (map (met_expense_table fl dt d
                      (safe_get_text soup ''span''
                         ''ContentPlaceHolder1_LRegistrationInfoReview1_lblLobbyistFirstName'')
                      (safe_get_text soup ''span''
                         ''ContentPlaceHolder1_LRegistrationInfoReview1_lblLobbyistLastName''))
         (find_all_placed soup (\<lambda>n. is_tag ''table'' n \<and> id_contains ''grdvMETExpenses'' n)))"
    by (simp add: parse_lobbyist_report_def Let_def)
  show "\<exists>name. met_expense_table fl dt d first_name last_name tbl =
                parse_met_expenses fl dt (Some (fst (snd tbl))) d (Some name)"
    unfolding met_expense_table_def Let_def by (rule exI) (rule refl)
  show "parse_operating_expenses fl dt soup d =
       (case find_first soup (\<lambda>n. is_tag ''table'' n \<and> id_contains ''grdvOperatingExpenses'' n) of
          None \<Rightarrow> []
        | Some t \<Rightarrow>
            if contains ''No operating expenses were filed'' (get_text t) then []
            else List.map_filter (operating_expense_row fl dt d) (tl (find_all t (is_tag ''tr''))))"
    by (simp add: parse_operating_expenses_def split: option.splits)
  show "contributions_block fl dt soup d =
       (case find_first soup (\<lambda>n. is_tag ''table'' n \<and> id_contains ''grdvCampaignContribution'' n) of
          None \<Rightarrow> []
        | Some t \<Rightarrow>
            if contains ''No campaign contributions were filed'' (get_text t) then []
            else List.map_filter (contribution_row fl dt d) (tl (find_all t (is_tag ''tr''))))"
    by (simp add: contributions_block_def Let_def tl_short split: option.splits)
  show "fst (snd (snd (parse_client_report fl dt soup d))) =
       parse_met_expenses fl dt
         (find_first soup (\<lambda>n. is_tag ''table'' n \<and> id_contains ''grdvMETExpenses'' n)) d None"
    by (simp add: parse_client_report_def Let_def)
qed

end
